theory Spec2Isabelle
  imports Complex_Main "HOL-Library.Log_Nat"
begin

section \<open>Data model of the physics clients\<close>

text \<open>
  A JavaScript number is modelled by the real number it denotes; NaN and the infinities
  are outside the model. The operations that round their result are not those of
  \<^typ>\<open>real\<close>: the integrator takes them from a record \<open>arith\<close> (next section).

  A \<open>{ x, y }\<close> pair (\<open>velocity\<close>, \<open>gravity\<close>) is the record \<open>vec\<close>; the fields of
  \<open>interface PhysicsObject\<close> carry the prefix \<open>o_\<close> (\<open>id\<close>, \<open>x\<close>, \<open>y\<close>, \<open>type\<close> are not
  usable as constant names), an optional field (\<open>radius?\<close>) is an option, None standing
  for \<open>undefined\<close>.
\<close>

record vec =
  vec_x :: real
  vec_y :: real

datatype shape = Circle | Rectangle

record PhysicsObject =
  o_id :: string
  o_x :: real
  o_y :: real
  o_velocity :: vec
  o_mass :: real
  o_type :: shape
  o_radius :: "real option"
  o_width :: "real option"
  o_height :: "real option"

record bounds =
  b_width :: real
  b_height :: real

section \<open>Number arithmetic\<close>

text \<open>
  The four operations of JavaScript numbers and the value of a decimal literal round
  to a double. The integrator is written over a record of these five, so that what is
  proved of it for every such record holds of the doubles. Comparison and unary minus
  are exact on doubles and stay those of \<^typ>\<open>real\<close>; the literals \<open>0\<close> and \<open>60\<close> are
  doubles and are written as they are, the literal \<open>0.8\<close> is not and is \<open>flit ar 0.8\<close>.
\<close>

record arith =
  fadd :: "real \<Rightarrow> real \<Rightarrow> real"
  fsub :: "real \<Rightarrow> real \<Rightarrow> real"
  fmul :: "real \<Rightarrow> real \<Rightarrow> real"
  fdiv :: "real \<Rightarrow> real \<Rightarrow> real"
  flit :: "real \<Rightarrow> real"

text \<open>
  IEEE 754 binary64 with the default rounding, as ECMAScript prescribes: the result
  of an operation is the exact result rounded to the nearest number with a 53 bit
  significand, a tie going to the even significand. \<open>ilog2 x\<close> is the exponent of a
  positive \<open>x\<close> (the \<open>e\<close> with \<open>2 ^ e \<le> x < 2 ^ (e + 1)\<close>); the spacing of the doubles
  around \<open>x\<close> is \<open>2 ^ (e - 52)\<close>, and \<open>2 ^ (- 1074)\<close> below the smallest normal exponent
  \<open>- 1022\<close>. Overflow to an infinity and division by zero are outside the model.
\<close>

definition round_even :: "real \<Rightarrow> int" where
  "round_even x =
     (let f = \<lfloor>x\<rfloor>; d = x - of_int f
      in if d < 1 / 2 then f else if 1 / 2 < d then f + 1 else if even f then f else f + 1)"

definition ilog2 :: "real \<Rightarrow> int" where
  "ilog2 x =
     (if 1 \<le> x then int (floorlog 2 (nat \<lfloor>x\<rfloor>)) - 1
      else - int (floorlog 2 (nat (\<lceil>1 / x\<rceil> - 1))))"

definition scale2 :: "real \<Rightarrow> int \<Rightarrow> real" where
  "scale2 x k = (if 0 \<le> k then x * 2 ^ nat k else x / 2 ^ nat (- k))"

definition fl :: "real \<Rightarrow> real" where
  "fl x =
     (if x = 0 then 0
      else let q = max (ilog2 \<bar>x\<bar>) (- 1022) - 52
           in scale2 (of_int (round_even (scale2 x (- q)))) q)"

definition binary64 :: arith where
  "binary64 =
     \<lparr>fadd = (\<lambda>x y. fl (x + y)), fsub = (\<lambda>x y. fl (x - y)), fmul = (\<lambda>x y. fl (x * y)),
      fdiv = (\<lambda>x y. fl (x / y)), flit = fl\<rparr>"

text \<open>The arithmetic that does not round, to compare with.\<close>

definition exact_arith :: arith where
  "exact_arith =
     \<lparr>fadd = (\<lambda>x y. x + y), fsub = (\<lambda>x y. x - y), fmul = (\<lambda>x y. x * y),
      fdiv = (\<lambda>x y. x / y), flit = (\<lambda>x. x)\<rparr>"

section \<open>The integrator: the body of \<open>updatePhysics\<close>\<close>

text \<open>
  \<open>updatePhysics(deltaTime)\<close> runs the same body on every object of the store, in both
  clients (the plain-script client only adds a console message). The body mutates the
  object in place; the model returns the updated object. It is split at the source's
  own comments: gravity and position first, then the collision with the world bounds.

  \<^verbatim>\<open>obj.velocity.y += this.gravity.y * deltaTime;\<close>
  \<^verbatim>\<open>obj.x += obj.velocity.x * deltaTime * 60;\<close>
  \<^verbatim>\<open>obj.y += obj.velocity.y * deltaTime * 60;\<close>
\<close>

definition move_object :: "arith \<Rightarrow> vec \<Rightarrow> real \<Rightarrow> PhysicsObject \<Rightarrow> PhysicsObject" where
  "move_object ar gravity deltaTime obj =
     (let obj = obj\<lparr>o_velocity := (o_velocity obj)
                  \<lparr>vec_y := fadd ar (vec_y (o_velocity obj))
                             (fmul ar (vec_y gravity) deltaTime)\<rparr>\<rparr>;
          obj = obj\<lparr>o_x := fadd ar (o_x obj)
                           (fmul ar (fmul ar (vec_x (o_velocity obj)) deltaTime) 60)\<rparr>;
          obj = obj\<lparr>o_y := fadd ar (o_y obj)
                           (fmul ar (fmul ar (vec_y (o_velocity obj)) deltaTime) 60)\<rparr>
      in obj)"

text \<open>
  The four tests of the collision block, in the source's order: left, right, bottom,
  top. Each reads the object as the tests before it left it.

  \<^verbatim>\<open>if (obj.x - obj.radius < 0) { obj.x = obj.radius; obj.velocity.x = -obj.velocity.x * 0.8; }\<close>
  \<^verbatim>\<open>if (obj.x + obj.radius > this.worldBounds.width) {\<close>
  \<^verbatim>\<open>  obj.x = this.worldBounds.width - obj.radius; obj.velocity.x = -obj.velocity.x * 0.8; }\<close>
\<close>

definition bounce_left :: "arith \<Rightarrow> real \<Rightarrow> PhysicsObject \<Rightarrow> PhysicsObject" where
  "bounce_left ar r obj =
     (if fsub ar (o_x obj) r < 0
      then obj\<lparr>o_x := r,
               o_velocity := (o_velocity obj)
                 \<lparr>vec_x := fmul ar (- vec_x (o_velocity obj)) (flit ar 0.8)\<rparr>\<rparr>
      else obj)"

definition bounce_right :: "arith \<Rightarrow> bounds \<Rightarrow> real \<Rightarrow> PhysicsObject \<Rightarrow> PhysicsObject" where
  "bounce_right ar wb r obj =
     (if fadd ar (o_x obj) r > b_width wb
      then obj\<lparr>o_x := fsub ar (b_width wb) r,
               o_velocity := (o_velocity obj)
                 \<lparr>vec_x := fmul ar (- vec_x (o_velocity obj)) (flit ar 0.8)\<rparr>\<rparr>
      else obj)"

definition bounce_bottom :: "arith \<Rightarrow> bounds \<Rightarrow> real \<Rightarrow> PhysicsObject \<Rightarrow> PhysicsObject" where
  "bounce_bottom ar wb r obj =
     (if fadd ar (o_y obj) r > b_height wb
      then obj\<lparr>o_y := fsub ar (b_height wb) r,
               o_velocity := (o_velocity obj)
                 \<lparr>vec_y := fmul ar (- vec_y (o_velocity obj)) (flit ar 0.8)\<rparr>\<rparr>
      else obj)"

definition bounce_top :: "arith \<Rightarrow> real \<Rightarrow> PhysicsObject \<Rightarrow> PhysicsObject" where
  "bounce_top ar r obj =
     (if fsub ar (o_y obj) r < 0
      then obj\<lparr>o_y := r,
               o_velocity := (o_velocity obj)
                 \<lparr>vec_y := fmul ar (- vec_y (o_velocity obj)) (flit ar 0.8)\<rparr>\<rparr>
      else obj)"

text \<open>
  \<^verbatim>\<open>if (obj.type === 'circle' && obj.radius) { ... }\<close>: the guard is a truthiness test,
  so a radius that is \<open>undefined\<close> or \<open>0\<close> skips the block.
\<close>

definition collide_bounds :: "arith \<Rightarrow> bounds \<Rightarrow> PhysicsObject \<Rightarrow> PhysicsObject" where
  "collide_bounds ar wb obj =
     (case o_radius obj of
        None \<Rightarrow> obj
      | Some r \<Rightarrow>
          if o_type obj = Circle \<and> r \<noteq> 0
          then bounce_top ar r (bounce_bottom ar wb r (bounce_right ar wb r (bounce_left ar r obj)))
          else obj)"

definition advance :: "arith \<Rightarrow> vec \<Rightarrow> bounds \<Rightarrow> real \<Rightarrow> PhysicsObject \<Rightarrow> PhysicsObject" where
  "advance ar gravity wb deltaTime obj =
     collide_bounds ar wb (move_object ar gravity deltaTime obj)"

text \<open>
  The tests of the collision block as predicates on the object after the move: which
  boundary plane the step has crossed, as the code decides it.
\<close>

definition collidable :: "PhysicsObject \<Rightarrow> bool" where
  "collidable obj =
     (o_type obj = Circle \<and> (case o_radius obj of None \<Rightarrow> False | Some r \<Rightarrow> r \<noteq> 0))"

definition radius_of :: "PhysicsObject \<Rightarrow> real" where
  "radius_of obj = (case o_radius obj of None \<Rightarrow> 0 | Some r \<Rightarrow> r)"

definition crosses_left :: "arith \<Rightarrow> PhysicsObject \<Rightarrow> bool" where
  "crosses_left ar obj = (collidable obj \<and> fsub ar (o_x obj) (radius_of obj) < 0)"

definition crosses_right :: "arith \<Rightarrow> bounds \<Rightarrow> PhysicsObject \<Rightarrow> bool" where
  "crosses_right ar wb obj = (collidable obj \<and> fadd ar (o_x obj) (radius_of obj) > b_width wb)"

definition crosses_bottom :: "arith \<Rightarrow> bounds \<Rightarrow> PhysicsObject \<Rightarrow> bool" where
  "crosses_bottom ar wb obj =
     (collidable obj \<and> fadd ar (o_y obj) (radius_of obj) > b_height wb)"

definition crosses_top :: "arith \<Rightarrow> PhysicsObject \<Rightarrow> bool" where
  "crosses_top ar obj = (collidable obj \<and> fsub ar (o_y obj) (radius_of obj) < 0)"

definition crosses_any :: "arith \<Rightarrow> bounds \<Rightarrow> PhysicsObject \<Rightarrow> bool" where
  "crosses_any ar wb obj =
     (crosses_left ar obj \<or> crosses_right ar wb obj \<or> crosses_bottom ar wb obj \<or>
      crosses_top ar obj)"

text \<open>
  Successive calls of the body on one object, with the deltas of successive frames, and
  the condition that none of these steps fires a test of the collision block.
\<close>

fun advance_steps ::
  "arith \<Rightarrow> vec \<Rightarrow> bounds \<Rightarrow> real list \<Rightarrow> PhysicsObject \<Rightarrow> PhysicsObject" where
  "advance_steps ar gravity wb [] obj = obj"
| "advance_steps ar gravity wb (d # ds) obj =
     advance_steps ar gravity wb ds (advance ar gravity wb d obj)"

fun no_crossing :: "arith \<Rightarrow> vec \<Rightarrow> bounds \<Rightarrow> real list \<Rightarrow> PhysicsObject \<Rightarrow> bool" where
  "no_crossing ar gravity wb [] obj = True"
| "no_crossing ar gravity wb (d # ds) obj =
     (\<not> crosses_any ar wb (move_object ar gravity d obj) \<and>
      no_crossing ar gravity wb ds (advance ar gravity wb d obj))"

text \<open>
  The fixed-step accumulation in the order of the program: \<open>velocity.y\<close> after the
  steps, starting from \<open>v\<close>, and \<open>y\<close> after the steps, each step adding its velocity
  (after the gravity of that step) times its delta times 60.
\<close>

fun velocity_accumulated :: "arith \<Rightarrow> real \<Rightarrow> real \<Rightarrow> real list \<Rightarrow> real" where
  "velocity_accumulated ar g v [] = v"
| "velocity_accumulated ar g v (d # ds) =
     velocity_accumulated ar g (fadd ar v (fmul ar g d)) ds"

fun position_accumulated :: "arith \<Rightarrow> real \<Rightarrow> real \<Rightarrow> real \<Rightarrow> real list \<Rightarrow> real" where
  "position_accumulated ar g v y [] = y"
| "position_accumulated ar g v y (d # ds) =
     position_accumulated ar g (fadd ar v (fmul ar g d))
       (fadd ar y (fmul ar (fmul ar (fadd ar v (fmul ar g d)) d) 60)) ds"

text \<open>
  Inputs of the examples: the gravity and the bounds that both clients start with (the
  literal \<open>9.81\<close> as the double it denotes), and a circle of mass 1 at a given position
  with a given velocity and radius.
\<close>

definition default_gravity :: vec where
  "default_gravity = \<lparr>vec_x = 0, vec_y = flit binary64 9.81\<rparr>"

definition default_bounds :: bounds where
  "default_bounds = \<lparr>b_width = 800, b_height = 600\<rparr>"

definition circle_at :: "real \<Rightarrow> real \<Rightarrow> real \<Rightarrow> real \<Rightarrow> real \<Rightarrow> PhysicsObject" where
  "circle_at x y vx vy r =
     \<lparr>o_id = ''ball'', o_x = x, o_y = y, o_velocity = \<lparr>vec_x = vx, vec_y = vy\<rparr>, o_mass = 1,
      o_type = Circle, o_radius = Some r, o_width = None, o_height = None\<rparr>"

section \<open>JavaScript values and errors\<close>

text \<open>
  What \<open>JSON.parse\<close> returns, and what an object literal handed to \<open>JSON.stringify\<close>
  holds. \<open>JUndefined\<close> is the value of a property that is not there. \<open>JSON.parse\<close> is a
  library function: the handlers take it as a parameter that returns None where the
  library throws a SyntaxError. An outgoing frame is recorded as the value handed to
  \<open>JSON.stringify\<close>.
\<close>

datatype jsval =
    JUndefined
  | JNull
  | JBool bool
  | JNum real
  | JStr string
  | JArr "jsval list"
  | JObj "(string \<times> jsval) list"

datatype js_error = SyntaxError | TypeError

text \<open>
  Property access \<open>v.k\<close>, for the keys the handlers read (\<open>type\<close>, \<open>data\<close>), none of
  which is on a prototype: \<open>null\<close> and \<open>undefined\<close> throw a TypeError, an object gives
  the property or \<open>undefined\<close>, every other value gives \<open>undefined\<close>.
\<close>

fun get_prop :: "jsval \<Rightarrow> string \<Rightarrow> js_error + jsval" where
  "get_prop JUndefined k = Inl TypeError"
| "get_prop JNull k = Inl TypeError"
| "get_prop (JObj kvs) k = Inr (case map_of kvs k of None \<Rightarrow> JUndefined | Some v \<Rightarrow> v)"
| "get_prop v k = Inr JUndefined"

section \<open>The relay server\<close>

text \<open>
  A connection is a number. The server's state is the global \<open>clients\<close> set (a JavaScript
  Set keeps insertion order and holds no element twice: a list, with \<open>set_add\<close> and
  \<open>set_delete\<close>), each socket's \<open>readyState\<close> as the host reports it, and the two effects
  of the handlers: the calls of \<open>send\<close> (socket and message) and the console.
\<close>

type_synonym conn = nat

datatype ready_state = CONNECTING | OPEN | CLOSING | CLOSED

datatype log_entry =
    LogConnected nat
  | LogDisconnected nat
  | LogReceived jsval
  | LogUnknownType jsval
  | LogParseError js_error
  | LogSocketError

record server_state =
  clients :: "conn list"
  readyState :: "conn \<Rightarrow> ready_state"
  sent :: "(conn \<times> jsval) list"
  console :: "log_entry list"

definition set_add :: "'a \<Rightarrow> 'a list \<Rightarrow> 'a list" where
  "set_add c cs = (if c \<in> set cs then cs else cs @ [c])"

definition set_delete :: "'a \<Rightarrow> 'a list \<Rightarrow> 'a list" where
  "set_delete c cs = filter (\<lambda>d. d \<noteq> c) cs"

definition console_log :: "log_entry \<Rightarrow> server_state \<Rightarrow> server_state" where
  "console_log e st = st\<lparr>console := console st @ [e]\<rparr>"

definition ws_send :: "conn \<Rightarrow> jsval \<Rightarrow> server_state \<Rightarrow> server_state" where
  "ws_send c m st = st\<lparr>sent := sent st @ [(c, m)]\<rparr>"

text \<open>The messages that \<open>send\<close> was called with on the socket \<open>c\<close>, in order.\<close>

definition sent_to :: "conn \<Rightarrow> server_state \<Rightarrow> jsval list" where
  "sent_to c st = map snd (filter (\<lambda>(d, m). d = c) (sent st))"

text \<open>
  \<^verbatim>\<open>for (const client of clients) { if (client.readyState === WebSocket.OPEN) client.send(messageStr); }\<close>
\<close>

definition broadcastToAll :: "jsval \<Rightarrow> server_state \<Rightarrow> server_state" where
  "broadcastToAll message st =
     fold (\<lambda>client s. if readyState s client = OPEN then ws_send client message s else s)
       (clients st) st"

definition physics_init_message :: jsval where
  "physics_init_message =
     JObj [(''type'', JStr ''physics_init''),
           (''data'', JObj [(''gravity'', JObj [(''x'', JNum 0), (''y'', JNum 9.81)]),
                            (''worldBounds'', JObj [(''width'', JNum 800), (''height'', JNum 600)])])]"

definition physics_update_message :: "jsval \<Rightarrow> int \<Rightarrow> jsval" where
  "physics_update_message d now =
     JObj [(''type'', JStr ''physics_update''), (''data'', d), (''timestamp'', JNum (of_int now))]"

text \<open>
  The body of the \<open>try\<close> block of \<open>socket.onmessage\<close>. A throw is Inl, with the state as
  the statements before the throw left it. \<open>now\<close> is what \<open>Date.now()\<close> returns.
\<close>

definition onmessage_try ::
  "(string \<Rightarrow> jsval option) \<Rightarrow> int \<Rightarrow> conn \<Rightarrow> string \<Rightarrow> server_state
     \<Rightarrow> (js_error \<times> server_state) + server_state" where
  "onmessage_try JSON_parse now socket event_data st =
     (case JSON_parse event_data of
        None \<Rightarrow> Inl (SyntaxError, st)
      | Some data \<Rightarrow>
          let st = console_log (LogReceived data) st in
          (case get_prop data ''type'' of
             Inl e \<Rightarrow> Inl (e, st)
           | Inr t \<Rightarrow>
               if t = JStr ''physics_update'' then
                 (case get_prop data ''data'' of
                    Inl e \<Rightarrow> Inl (e, st)
                  | Inr d \<Rightarrow> Inr (broadcastToAll (physics_update_message d now) st))
               else if t = JStr ''client_ready'' then
                 Inr (ws_send socket physics_init_message st)
               else Inr (console_log (LogUnknownType t) st)))"

text \<open>
  The handler as its caller sees it: the \<open>catch\<close> clause logs the error and returns.
  The result is a sum so that a throw that left the handler would be a value Inl.
\<close>

definition onmessage ::
  "(string \<Rightarrow> jsval option) \<Rightarrow> int \<Rightarrow> conn \<Rightarrow> string \<Rightarrow> server_state
     \<Rightarrow> js_error + server_state" where
  "onmessage JSON_parse now socket event_data st =
     (case onmessage_try JSON_parse now socket event_data st of
        Inl (e, st') \<Rightarrow> Inr (console_log (LogParseError e) st')
      | Inr st' \<Rightarrow> Inr st')"

text \<open>
  \<open>handleWebSocket\<close> after the upgrade (\<open>clients.add(socket)\<close>), and the \<open>onclose\<close> and
  \<open>onerror\<close> handlers (\<open>clients.delete(socket)\<close>).
\<close>

definition register :: "conn \<Rightarrow> server_state \<Rightarrow> server_state" where
  "register socket st =
     (let st = st\<lparr>clients := set_add socket (clients st)\<rparr>
      in console_log (LogConnected (length (clients st))) st)"

definition onclose :: "conn \<Rightarrow> server_state \<Rightarrow> server_state" where
  "onclose socket st =
     (let st = st\<lparr>clients := set_delete socket (clients st)\<rparr>
      in console_log (LogDisconnected (length (clients st))) st)"

definition onerror :: "conn \<Rightarrow> server_state \<Rightarrow> server_state" where
  "onerror socket st =
     (let st = console_log LogSocketError st
      in st\<lparr>clients := set_delete socket (clients st)\<rparr>)"

section \<open>The typed client\<close>

text \<open>
  The fields of \<open>class PhysicsClient\<close> that the handlers read and write. \<open>physicsObjects\<close>
  is a JavaScript Map (insertion order, one entry a key): an association list with
  \<open>map_set\<close> and \<open>map_delete\<close>. \<open>socket\<close> is None for \<open>null\<close> and otherwise numbers the
  WebSocket object that \<open>connect\<close> created last. Three fields are not in the class and
  record its surroundings and effects: \<open>has_canvas\<close> (whether the page has the canvas
  element and its 2d context), \<open>timers\<close> (the delay of every \<open>setTimeout\<close> call, in
  order) and \<open>outbox\<close> (the message of every \<open>socket.send\<close> call, in order). The DOM
  updates of \<open>updatePhysicsDisplay\<close> and the console are left out.
\<close>

record PhysicsClient =
  socket :: "nat option"
  isConnected :: bool
  reconnectAttempts :: nat
  physicsObjects :: "(string \<times> PhysicsObject) list"
  gravity :: vec
  worldBounds :: bounds
  lastTime :: real
  has_canvas :: bool
  timers :: "nat list"
  outbox :: "jsval list"

definition maxReconnectAttempts :: nat where
  "maxReconnectAttempts = 5"

fun map_set :: "'k \<Rightarrow> 'v \<Rightarrow> ('k \<times> 'v) list \<Rightarrow> ('k \<times> 'v) list" where
  "map_set k v [] = [(k, v)]"
| "map_set k v ((k', v') # m) = (if k' = k then (k, v) # m else (k', v') # map_set k v m)"

definition map_delete :: "'k \<Rightarrow> ('k \<times> 'v) list \<Rightarrow> ('k \<times> 'v) list" where
  "map_delete k m = filter (\<lambda>(k', v). k' \<noteq> k) m"

definition addPhysicsObject :: "PhysicsObject \<Rightarrow> PhysicsClient \<Rightarrow> PhysicsClient" where
  "addPhysicsObject obj st = st\<lparr>physicsObjects := map_set (o_id obj) obj (physicsObjects st)\<rparr>"

definition ball1 :: PhysicsObject where
  "ball1 = \<lparr>o_id = ''ball1'', o_x = 100, o_y = 100, o_velocity = \<lparr>vec_x = 2, vec_y = 0\<rparr>,
            o_mass = 1, o_type = Circle, o_radius = Some 20, o_width = None, o_height = None\<rparr>"

definition ball2 :: PhysicsObject where
  "ball2 = \<lparr>o_id = ''ball2'', o_x = 200, o_y = 150, o_velocity = \<lparr>vec_x = - 1, vec_y = 0\<rparr>,
            o_mass = 1.5, o_type = Circle, o_radius = Some 25, o_width = None, o_height = None\<rparr>"

definition setupCanvas :: "PhysicsClient \<Rightarrow> PhysicsClient" where
  "setupCanvas st =
     (if has_canvas st then addPhysicsObject ball2 (addPhysicsObject ball1 st) else st)"

text \<open>The state the field initialisers give, before \<open>init\<close> runs.\<close>

definition new_client :: "bool \<Rightarrow> PhysicsClient" where
  "new_client canvas =
     \<lparr>socket = None, isConnected = False, reconnectAttempts = 0, physicsObjects = [],
      gravity = \<lparr>vec_x = 0, vec_y = 9.81\<rparr>, worldBounds = \<lparr>b_width = 800, b_height = 600\<rparr>,
      lastTime = 0, has_canvas = canvas, timers = [], outbox = []\<rparr>"

subsection \<open>The render loop\<close>

definition updatePhysics :: "arith \<Rightarrow> real \<Rightarrow> PhysicsClient \<Rightarrow> PhysicsClient" where
  "updatePhysics ar deltaTime st =
     st\<lparr>physicsObjects :=
          map (\<lambda>(k, obj). (k, advance ar (gravity st) (worldBounds st) deltaTime obj))
            (physicsObjects st)\<rparr>"

definition animate :: "arith \<Rightarrow> real \<Rightarrow> PhysicsClient \<Rightarrow> PhysicsClient" where
  "animate ar currentTime st =
     (let deltaTime = fdiv ar (fsub ar currentTime (lastTime st)) 1000;
          st = st\<lparr>lastTime := currentTime\<rparr>
      in updatePhysics ar deltaTime st)"

definition toggleGravity :: "PhysicsClient \<Rightarrow> PhysicsClient" where
  "toggleGravity st =
     st\<lparr>gravity := (gravity st)\<lparr>vec_y := (if vec_y (gravity st) = 0 then 9.81 else 0)\<rparr>\<rparr>"

subsection \<open>Connection and reconnection\<close>

definition sendMessage :: "jsval \<Rightarrow> PhysicsClient \<Rightarrow> PhysicsClient" where
  "sendMessage message st =
     (if socket st \<noteq> None \<and> isConnected st then st\<lparr>outbox := outbox st @ [message]\<rparr> else st)"

text \<open>
  \<^verbatim>\<open>if (this.reconnectAttempts < this.maxReconnectAttempts) { this.reconnectAttempts++;\<close>
  \<^verbatim>\<open>  setTimeout(() => { this.connect(); }, 1000 * this.reconnectAttempts); }\<close>
\<close>

definition attemptReconnect :: "PhysicsClient \<Rightarrow> PhysicsClient" where
  "attemptReconnect st =
     (if reconnectAttempts st < maxReconnectAttempts
      then (let st = st\<lparr>reconnectAttempts := reconnectAttempts st + 1\<rparr>
            in st\<lparr>timers := timers st @ [1000 * reconnectAttempts st]\<rparr>)
      else st)"

text \<open>
  \<open>connect\<close>: \<open>throws\<close> says whether \<open>new WebSocket(...)\<close> throws, which the \<open>catch\<close>
  answers with \<open>attemptReconnect\<close>; otherwise the new socket is stored and its four
  handlers are installed. The handlers follow.
\<close>

definition connect :: "bool \<Rightarrow> PhysicsClient \<Rightarrow> PhysicsClient" where
  "connect throws st =
     (if throws then attemptReconnect st
      else st\<lparr>socket := Some (case socket st of None \<Rightarrow> 0 | Some n \<Rightarrow> Suc n)\<rparr>)"

definition socket_onopen :: "PhysicsClient \<Rightarrow> PhysicsClient" where
  "socket_onopen st =
     sendMessage (JObj [(''type'', JStr ''client_ready'')])
       (st\<lparr>isConnected := True, reconnectAttempts := 0\<rparr>)"

definition socket_onclose :: "PhysicsClient \<Rightarrow> PhysicsClient" where
  "socket_onclose st = attemptReconnect (st\<lparr>isConnected := False\<rparr>)"

definition socket_onerror :: "PhysicsClient \<Rightarrow> PhysicsClient" where
  "socket_onerror st = st\<lparr>isConnected := False\<rparr>"

text \<open>
  What can happen to the connection: the socket's \<open>open\<close>, \<open>close\<close> and \<open>error\<close> events,
  and a reconnect timer that fires and calls \<open>connect\<close>. \<open>run_events\<close> runs the handlers
  of a sequence of events, one after the other (the client is single-threaded).
\<close>

datatype conn_event = EvOpen | EvClose | EvError | EvTimer bool

fun handle_event :: "conn_event \<Rightarrow> PhysicsClient \<Rightarrow> PhysicsClient" where
  "handle_event EvOpen st = socket_onopen st"
| "handle_event EvClose st = socket_onclose st"
| "handle_event EvError st = socket_onerror st"
| "handle_event (EvTimer throws) st = connect throws st"

definition run_events :: "conn_event list \<Rightarrow> PhysicsClient \<Rightarrow> PhysicsClient" where
  "run_events evs st = fold handle_event evs st"

subsection \<open>Inbound messages\<close>

text \<open>
  \<open>interface PhysicsUpdate { type: string; data: any; timestamp: number }\<close>. The payload
  \<open>data\<close> is typed by the properties the handlers read, at the types of the client's own
  state; a property that is not there is None. \<open>m_data\<close> is None when the message has no
  \<open>data\<close>, and reading a property of it throws a TypeError.
\<close>

record update_data =
  d_action :: "string option"
  d_object :: "PhysicsObject option"
  d_id :: "string option"
  d_gravity :: "vec option"

record PhysicsUpdate =
  m_type :: string
  m_data :: "update_data option"
  m_timestamp :: "real option"

text \<open>
  The conditions are truthiness tests: an object is truthy when it is there, a string
  when it is there and not empty.
\<close>

definition handlePhysicsUpdate :: "update_data \<Rightarrow> PhysicsClient \<Rightarrow> PhysicsClient" where
  "handlePhysicsUpdate data st =
     (if d_action data = Some ''add_object'' \<and> d_object data \<noteq> None then
        (case d_object data of Some obj \<Rightarrow> addPhysicsObject obj st | None \<Rightarrow> st)
      else if d_action data = Some ''remove_object'' \<and> d_id data \<noteq> None \<and> d_id data \<noteq> Some [] then
        (case d_id data of
           Some i \<Rightarrow> st\<lparr>physicsObjects := map_delete i (physicsObjects st)\<rparr>
         | None \<Rightarrow> st)
      else if d_action data = Some ''update_gravity'' \<and> d_gravity data \<noteq> None then
        (case d_gravity data of Some g \<Rightarrow> st\<lparr>gravity := g\<rparr> | None \<Rightarrow> st)
      else if d_action data = Some ''reset'' then
        setupCanvas (st\<lparr>physicsObjects := []\<rparr>)
      else st)"

text \<open>
  \<open>handleMessage\<close>: \<open>physics_init\<close> only reaches the display (\<open>initializePhysics\<close> stores
  nothing), \<open>physics_update\<close> goes to \<open>handlePhysicsUpdate\<close>, any other type is logged.
\<close>

definition handleMessage :: "PhysicsUpdate \<Rightarrow> PhysicsClient \<Rightarrow> js_error + PhysicsClient" where
  "handleMessage message st =
     (if m_type message = ''physics_init'' then Inr st
      else if m_type message = ''physics_update'' then
        (case m_data message of
           None \<Rightarrow> Inl TypeError
         | Some data \<Rightarrow> Inr (handlePhysicsUpdate data st))
      else Inr st)"

text \<open>
  \<open>socket.onmessage\<close> of the client: parse, handle, and catch whatever is thrown.
\<close>

definition client_onmessage ::
  "(string \<Rightarrow> PhysicsUpdate option) \<Rightarrow> string \<Rightarrow> PhysicsClient \<Rightarrow> PhysicsClient" where
  "client_onmessage JSON_parse event_data st =
     (case JSON_parse event_data of
        None \<Rightarrow> st
      | Some message \<Rightarrow> (case handleMessage message st of Inl e \<Rightarrow> st | Inr st' \<Rightarrow> st'))"

section \<open>The plain-script client\<close>

text \<open>
  The plain-script \<open>class PhysicsClient\<close> has the same store, gravity, bounds and
  \<open>updatePhysics\<close> body; it keeps the socket in \<open>ws\<close> and sends when
  \<open>ws.readyState === WebSocket.OPEN\<close>. Its \<open>handlePhysicsUpdate\<close> only reaches the display.
\<close>

record PlainClient =
  p_ws :: "ready_state option"
  p_connected :: bool
  p_physicsObjects :: "(string \<times> PhysicsObject) list"
  p_gravity :: vec
  p_worldBounds :: bounds
  p_lastTime :: real
  p_outbox :: "jsval list"

definition new_plain_client :: PlainClient where
  "new_plain_client =
     \<lparr>p_ws = None, p_connected = False, p_physicsObjects = [],
      p_gravity = \<lparr>vec_x = 0, vec_y = 9.81\<rparr>, p_worldBounds = \<lparr>b_width = 800, b_height = 600\<rparr>,
      p_lastTime = 0, p_outbox = []\<rparr>"

definition plain_sendMessage :: "jsval \<Rightarrow> PlainClient \<Rightarrow> PlainClient" where
  "plain_sendMessage message st =
     (if p_ws st = Some OPEN then st\<lparr>p_outbox := p_outbox st @ [message]\<rparr> else st)"

definition plain_updatePhysics :: "arith \<Rightarrow> real \<Rightarrow> PlainClient \<Rightarrow> PlainClient" where
  "plain_updatePhysics ar deltaTime st =
     st\<lparr>p_physicsObjects :=
          map (\<lambda>(k, obj). (k, advance ar (p_gravity st) (p_worldBounds st) deltaTime obj))
            (p_physicsObjects st)\<rparr>"

definition vec_json :: "vec \<Rightarrow> jsval" where
  "vec_json v = JObj [(''x'', JNum (vec_x v)), (''y'', JNum (vec_y v))]"

definition plain_toggleGravity :: "PlainClient \<Rightarrow> PlainClient" where
  "plain_toggleGravity st =
     (let oldGravity = vec_y (p_gravity st);
          st = st\<lparr>p_gravity := (p_gravity st)\<lparr>vec_y := (if oldGravity = 0 then 9.81 else 0)\<rparr>\<rparr>
      in plain_sendMessage
           (JObj [(''type'', JStr ''physics_update''),
                  (''data'', JObj [(''action'', JStr ''gravity_changed''),
                                   (''gravity'', vec_json (p_gravity st))])])
           st)"

section \<open>Properties of the integrator\<close>

lemmas bounce_defs = bounce_left_def bounce_right_def bounce_bottom_def bounce_top_def

lemmas cross_defs =
  crosses_left_def crosses_right_def crosses_bottom_def crosses_top_def collidable_def
  radius_of_def

text \<open>The definitions that evaluate a \<open>binary64\<close> operation on numerals.\<close>

lemmas fl_eval =
  fl_def ilog2_def scale2_def round_even_def binary64_def compute_floorlog Let_def

text \<open>Rounding keeps the sign, so a product of doubles has the sign of the exact product.\<close>

lemma round_even_sign: "0 \<le> x \<Longrightarrow> 0 \<le> round_even x" "x \<le> 0 \<Longrightarrow> round_even x \<le> 0"
proof -
  show "0 \<le> round_even x" if "0 \<le> x"
  proof -
    have "0 \<le> \<lfloor>x\<rfloor>" using that by simp
    then show ?thesis by (simp add: round_even_def Let_def)
  qed
  show "round_even x \<le> 0" if "x \<le> 0"
  proof (cases "\<lfloor>x\<rfloor> = 0")
    case True
    then have "0 \<le> x" by (metis of_int_0 of_int_floor_le)
    with that have "x = 0" by simp
    then show ?thesis by (simp add: round_even_def)
  next
    case False
    moreover have "\<lfloor>x\<rfloor> \<le> 0" by (metis that floor_mono floor_zero)
    ultimately have "\<lfloor>x\<rfloor> + 1 \<le> 0" by linarith
    then show ?thesis by (simp add: round_even_def Let_def)
  qed
qed

lemma scale2_sign: "0 \<le> x \<Longrightarrow> 0 \<le> scale2 x k" "x \<le> 0 \<Longrightarrow> scale2 x k \<le> 0"
  by (simp_all add: scale2_def mult_le_0_iff divide_le_0_iff)

lemma fl_sign: "0 \<le> x \<Longrightarrow> 0 \<le> fl x" "x \<le> 0 \<Longrightarrow> fl x \<le> 0"
  by (simp_all add: fl_def Let_def scale2_sign round_even_sign)

lemma binary64_sign:
  "\<forall>a b. 0 \<le> a \<longrightarrow> 0 \<le> b \<longrightarrow> 0 \<le> fmul binary64 a b"
  "\<forall>a b. a \<le> 0 \<longrightarrow> 0 \<le> b \<longrightarrow> fmul binary64 a b \<le> 0"
  "0 \<le> flit binary64 0.8"
  by (simp_all add: binary64_def fl_sign mult_nonneg_nonneg mult_nonpos_nonneg)

lemma move_object_fields:
  "o_type (move_object ar g dt obj) = o_type obj"
  "o_radius (move_object ar g dt obj) = o_radius obj"
  "vec_x (o_velocity (move_object ar g dt obj)) = vec_x (o_velocity obj)"
  "vec_y (o_velocity (move_object ar g dt obj)) =
     fadd ar (vec_y (o_velocity obj)) (fmul ar (vec_y g) dt)"
  "o_x (move_object ar g dt obj) =
     fadd ar (o_x obj) (fmul ar (fmul ar (vec_x (o_velocity obj)) dt) 60)"
  "o_y (move_object ar g dt obj) =
     fadd ar (o_y obj)
       (fmul ar (fmul ar (fadd ar (vec_y (o_velocity obj)) (fmul ar (vec_y g) dt)) dt) 60)"
  by (simp_all add: move_object_def)

lemma advance_keeps_identity:
  "o_id (advance ar g wb dt obj) = o_id obj \<and>
   o_mass (advance ar g wb dt obj) = o_mass obj \<and>
   o_type (advance ar g wb dt obj) = o_type obj \<and>
   o_radius (advance ar g wb dt obj) = o_radius obj \<and>
   o_width (advance ar g wb dt obj) = o_width obj \<and>
   o_height (advance ar g wb dt obj) = o_height obj"
  by (simp add: advance_def collide_bounds_def move_object_def bounce_defs split: option.splits)

lemma advance_keeps_velocity_x:
  assumes "\<not> crosses_left ar (move_object ar g dt obj)"
    and "\<not> crosses_right ar wb (move_object ar g dt obj)"
  shows "vec_x (o_velocity (advance ar g wb dt obj)) = vec_x (o_velocity obj)"
  using assms
  by (auto simp add: advance_def collide_bounds_def move_object_def bounce_defs cross_defs
      split: option.splits)

lemma advance_ignores_gravity_x:
  "advance ar (g\<lparr>vec_x := a\<rparr>) wb dt obj = advance ar g wb dt obj"
  by (simp add: advance_def move_object_def)

text \<open>The store after \<open>updatePhysics\<close>: the same keys in the same order, every object advanced.\<close>

lemma updatePhysics_store:
  "map fst (physicsObjects (updatePhysics ar dt st)) = map fst (physicsObjects st) \<and>
   map snd (physicsObjects (updatePhysics ar dt st)) =
     map (advance ar (gravity st) (worldBounds st) dt) (map snd (physicsObjects st))"
  by (simp add: updatePhysics_def split_def comp_def)

lemma updatePhysics_config:
  "gravity (updatePhysics ar dt st) = gravity st"
  "worldBounds (updatePhysics ar dt st) = worldBounds st"
  by (simp_all add: updatePhysics_def)

text \<open>
  Successive frames: every object of the store goes through \<open>advance_steps\<close> with the
  deltas of the frames. The plain-script client runs the same body.
\<close>

lemma updatePhysics_steps:
  "physicsObjects (fold (updatePhysics ar) ds st) =
     map (\<lambda>(k, obj). (k, advance_steps ar (gravity st) (worldBounds st) ds obj))
       (physicsObjects st)"
proof (induction ds arbitrary: st)
  case Nil
  then show ?case by (simp add: split_def)
next
  case (Cons d ds)
  show ?case
    using Cons.IH [of "updatePhysics ar d st"]
    by (simp add: updatePhysics_config) (simp add: updatePhysics_def split_def comp_def)
qed

lemma plain_updatePhysics_store:
  "map fst (p_physicsObjects (plain_updatePhysics ar dt st)) = map fst (p_physicsObjects st) \<and>
   map snd (p_physicsObjects (plain_updatePhysics ar dt st)) =
     map (advance ar (p_gravity st) (p_worldBounds st) dt) (map snd (p_physicsObjects st))"
  by (simp add: plain_updatePhysics_def split_def comp_def)

subsection \<open>Steps of the examples\<close>

text \<open>
  One step in \<open>binary64\<close> at the inputs of the witnesses and counterexamples below: the
  object after the move, and after the collision block.
\<close>

lemmas example_defs = circle_at_def default_bounds_def default_gravity_def cross_defs

lemma moved_corner_a:
  "move_object binary64 default_gravity (1 / 64) (circle_at 21 21 (- 2) (- 3) 20) =
     circle_at (153 / 8) (2579887211465933 / 140737488355328) (- 2) (- 3205120375432151 / 1125899906842624) 20"
  by (simp add: move_object_def circle_at_def default_gravity_def fl_eval)

lemma step_corner_a:
  "advance binary64 default_gravity default_bounds (1 / 64) (circle_at 21 21 (- 2) (- 3) 20) =
     circle_at 20 20 (3602879701896397 / 2251799813685248) (2564096300345721 / 1125899906842624) 20"
  unfolding advance_def moved_corner_a
  by (simp add: collide_bounds_def bounce_defs circle_at_def default_bounds_def fl_eval)

lemma moved_corner_b:
  "move_object binary64 default_gravity (1 / 64) (circle_at 779 579 2 3 20) =
     circle_at (6247 / 8) (5118940880358605 / 8796093022208) 2 (3550279065623593 / 1125899906842624) 20"
  by (simp add: move_object_def circle_at_def default_gravity_def fl_eval)

lemma step_corner_b:
  "advance binary64 default_gravity default_bounds (1 / 64) (circle_at 779 579 2 3 20) =
     circle_at 780 580 (- 3602879701896397 / 2251799813685248) (- 5680446504997749 / 2251799813685248) 20"
  unfolding advance_def moved_corner_b
  by (simp add: collide_bounds_def bounce_defs circle_at_def default_bounds_def fl_eval)

lemma moved_oversized:
  "move_object binary64 default_gravity (1 / 64) (circle_at 438 100 2 0 450) =
     circle_at (3519 / 8) (3523493244384051 / 35184372088832) 2 (5522539043063071 / 36028797018963968) 450"
  by (simp add: move_object_def circle_at_def default_gravity_def fl_eval)

lemma step_oversized:
  "advance binary64 default_gravity default_bounds (1 / 64) (circle_at 438 100 2 0 450) =
     circle_at 350 450 (1441151880758559 / 1125899906842624) (- 4418031234450457 / 36028797018963968) 450"
  unfolding advance_def moved_oversized
  by (simp add: collide_bounds_def bounce_defs circle_at_def default_bounds_def fl_eval)

lemma moved_three:
  "move_object binary64 default_gravity (1 / 64) (circle_at 21 100 (- 3) 0 20) =
     circle_at (291 / 16) (3523493244384051 / 35184372088832) (- 3) (5522539043063071 / 36028797018963968) 20"
  by (simp add: move_object_def circle_at_def default_gravity_def fl_eval)

lemma step_three:
  "advance binary64 default_gravity default_bounds (1 / 64) (circle_at 21 100 (- 3) 0 20) =
     circle_at 20 (3523493244384051 / 35184372088832) (1351079888211149 / 562949953421312) (5522539043063071 / 36028797018963968) 20"
  unfolding advance_def moved_three
  by (simp add: collide_bounds_def bounce_defs circle_at_def default_bounds_def fl_eval)

lemma moved_flush_a:
  "move_object binary64 default_gravity (1 / 64) (circle_at 20 20 (- 2) (- 3) 20) =
     circle_at (145 / 8) (2439149723110605 / 140737488355328) (- 2) (- 3205120375432151 / 1125899906842624) 20"
  by (simp add: move_object_def circle_at_def default_gravity_def fl_eval)

lemma step_flush_a:
  "advance binary64 default_gravity default_bounds (1 / 64) (circle_at 20 20 (- 2) (- 3) 20) =
     circle_at 20 20 (3602879701896397 / 2251799813685248) (2564096300345721 / 1125899906842624) 20"
  unfolding advance_def moved_flush_a
  by (simp add: collide_bounds_def bounce_defs circle_at_def default_bounds_def fl_eval)

lemma moved_flush_b:
  "move_object binary64 default_gravity (1 / 64) (circle_at 780 580 2 3 20) =
     circle_at (6255 / 8) (5127736973380813 / 8796093022208) 2 (3550279065623593 / 1125899906842624) 20"
  by (simp add: move_object_def circle_at_def default_gravity_def fl_eval)

lemma step_flush_b:
  "advance binary64 default_gravity default_bounds (1 / 64) (circle_at 780 580 2 3 20) =
     circle_at 780 580 (- 3602879701896397 / 2251799813685248) (- 5680446504997749 / 2251799813685248) 20"
  unfolding advance_def moved_flush_b
  by (simp add: collide_bounds_def bounce_defs circle_at_def default_bounds_def fl_eval)

lemma moved_flush_slow:
  "move_object binary64 default_gravity (1 / 64) (circle_at 780 100 (1 / 140737488355328) 0 20) =
     circle_at 780 (3523493244384051 / 35184372088832) (1 / 140737488355328) (5522539043063071 / 36028797018963968) 20"
  by (simp add: move_object_def circle_at_def default_gravity_def fl_eval)

lemma step_flush_slow:
  "advance binary64 default_gravity default_bounds (1 / 64) (circle_at 780 100 (1 / 140737488355328) 0 20) =
     circle_at 780 (3523493244384051 / 35184372088832) (1 / 140737488355328) (5522539043063071 / 36028797018963968) 20"
  unfolding advance_def moved_flush_slow
  by (simp add: collide_bounds_def bounce_defs circle_at_def default_bounds_def fl_eval)

lemma moved_flush_top:
  "move_object binary64 default_gravity (1 / 64) (circle_at 100 20 2 (- 1 / 16) 20) =
     circle_at (815 / 8) (2826727571901645 / 140737488355328) 2 (3270739229377823 / 36028797018963968) 20"
  by (simp add: move_object_def circle_at_def default_gravity_def fl_eval)

lemma step_flush_top:
  "advance binary64 default_gravity default_bounds (1 / 64) (circle_at 100 20 2 (- 1 / 16) 20) =
     circle_at (815 / 8) (2826727571901645 / 140737488355328) 2 (3270739229377823 / 36028797018963968) 20"
  unfolding advance_def moved_flush_top
  by (simp add: collide_bounds_def bounce_defs circle_at_def default_bounds_def fl_eval)

lemma moved_fall_1:
  "move_object binary64 default_gravity (flit binary64 0.016) (circle_at 100 100 0 0 20) =
     circle_at 100 (7047477692729081 / 70368744177664) 0 (5655079980096585 / 36028797018963968) 20"
  by (simp add: move_object_def circle_at_def default_gravity_def fl_eval)

lemma step_fall_1:
  "advance binary64 default_gravity default_bounds (flit binary64 0.016) (circle_at 100 100 0 0 20) =
     circle_at 100 (7047477692729081 / 70368744177664) 0 (5655079980096585 / 36028797018963968) 20"
  unfolding advance_def moved_fall_1
  by (simp add: collide_bounds_def bounce_defs circle_at_def default_bounds_def fl_eval)

lemma moved_fall_2:
  "move_object binary64 default_gravity (flit binary64 0.017) (circle_at 100 (7047477692729081 / 70368744177664) 0 (5655079980096585 / 36028797018963968) 20) =
     circle_at 100 (7070713775752769 / 70368744177664) 0 (1457950307368651 / 4503599627370496) 20"
  by (simp add: move_object_def circle_at_def default_gravity_def fl_eval)

lemma step_fall_2:
  "advance binary64 default_gravity default_bounds (flit binary64 0.017) (circle_at 100 (7047477692729081 / 70368744177664) 0 (5655079980096585 / 36028797018963968) 20) =
     circle_at 100 (7070713775752769 / 70368744177664) 0 (1457950307368651 / 4503599627370496) 20"
  unfolding advance_def moved_fall_2
  by (simp add: collide_bounds_def bounce_defs circle_at_def default_bounds_def fl_eval)

text \<open>
  C10. A step of the integrator, in whatever arithmetic, leaves \<open>id\<close>, \<open>mass\<close>, \<open>type\<close> and
  \<open>radius\<close> (and the \<open>width\<close> and \<open>height\<close> of a rectangle) as they were. When neither the
  left nor the right test of the collision block fires on the moved object,
  \<open>velocity.x\<close> is as it was. The step does not read \<open>gravity.x\<close>: any other horizontal
  gravity gives the same object.
\<close>

theorem advance_frame:
  "o_id (advance ar g wb dt obj) = o_id obj \<and>
   o_mass (advance ar g wb dt obj) = o_mass obj \<and>
   o_type (advance ar g wb dt obj) = o_type obj \<and>
   o_radius (advance ar g wb dt obj) = o_radius obj \<and>
   o_width (advance ar g wb dt obj) = o_width obj \<and>
   o_height (advance ar g wb dt obj) = o_height obj \<and>
   (\<not> crosses_left ar (move_object ar g dt obj) \<and>
    \<not> crosses_right ar wb (move_object ar g dt obj) \<longrightarrow>
      vec_x (o_velocity (advance ar g wb dt obj)) = vec_x (o_velocity obj)) \<and>
   advance ar (g\<lparr>vec_x := a\<rparr>) wb dt obj = advance ar g wb dt obj"
  using advance_keeps_identity advance_keeps_velocity_x advance_ignores_gravity_x
  by blast

theorem advance_frame_witness:
  "\<not> crosses_left binary64
       (move_object binary64 \<lparr>vec_x = 0, vec_y = flit binary64 9.81\<rparr> (flit binary64 0.016) ball1) \<and>
   \<not> crosses_right binary64 \<lparr>b_width = 800, b_height = 600\<rparr>
       (move_object binary64 \<lparr>vec_x = 0, vec_y = flit binary64 9.81\<rparr> (flit binary64 0.016) ball1) \<and>
   vec_x (o_velocity (advance binary64 \<lparr>vec_x = 0, vec_y = flit binary64 9.81\<rparr>
       \<lparr>b_width = 800, b_height = 600\<rparr> (flit binary64 0.016) ball1)) = 2 \<and>
   o_id (advance binary64 \<lparr>vec_x = 0, vec_y = flit binary64 9.81\<rparr>
       \<lparr>b_width = 800, b_height = 600\<rparr> (flit binary64 0.016) ball1) = ''ball1''"
proof -
  let ?g = "\<lparr>vec_x = 0, vec_y = flit binary64 9.81\<rparr>" and ?wb = "\<lparr>b_width = 800, b_height = 600\<rparr>"
  let ?dt = "flit binary64 0.016"
  have x: "o_x (move_object binary64 ?g ?dt ball1) = 7171982406587515 / 70368744177664"
    unfolding move_object_fields by (simp add: ball1_def fl_eval)
  have r: "collidable (move_object binary64 ?g ?dt ball1)"
    "radius_of (move_object binary64 ?g ?dt ball1) = 20"
    by (simp_all add: collidable_def radius_of_def move_object_fields ball1_def)
  have h: "\<not> crosses_left binary64 (move_object binary64 ?g ?dt ball1) \<and>
           \<not> crosses_right binary64 ?wb (move_object binary64 ?g ?dt ball1)"
    unfolding crosses_left_def crosses_right_def r x by (simp add: fl_eval)
  have "vec_x (o_velocity (advance binary64 ?g ?wb ?dt ball1)) = vec_x (o_velocity ball1)"
    and "o_id (advance binary64 ?g ?wb ?dt ball1) = o_id ball1"
    using advance_frame [of binary64 ?g ?wb ?dt ball1] h by blast+
  then show ?thesis using h by (simp add: ball1_def)
qed

lemma collide_x:
  assumes "o_type m = Circle" "o_radius m = Some r" "r \<noteq> 0"
  shows "fsub ar (o_x m) r < 0 \<Longrightarrow> \<not> fadd ar r r > b_width wb \<Longrightarrow>
           o_x (collide_bounds ar wb m) = r \<and>
           vec_x (o_velocity (collide_bounds ar wb m)) = fmul ar (- vec_x (o_velocity m)) (flit ar 0.8)"
    and "\<not> fsub ar (o_x m) r < 0 \<Longrightarrow> fadd ar (o_x m) r > b_width wb \<Longrightarrow>
           o_x (collide_bounds ar wb m) = fsub ar (b_width wb) r \<and>
           vec_x (o_velocity (collide_bounds ar wb m)) = fmul ar (- vec_x (o_velocity m)) (flit ar 0.8)"
  using assms by (auto simp add: collide_bounds_def bounce_defs)

lemma collide_y:
  assumes "o_type m = Circle" "o_radius m = Some r" "r \<noteq> 0"
  shows "fadd ar (o_y m) r > b_height wb \<Longrightarrow> \<not> fsub ar (fsub ar (b_height wb) r) r < 0 \<Longrightarrow>
           o_y (collide_bounds ar wb m) = fsub ar (b_height wb) r \<and>
           vec_y (o_velocity (collide_bounds ar wb m)) = fmul ar (- vec_y (o_velocity m)) (flit ar 0.8)"
    and "\<not> fadd ar (o_y m) r > b_height wb \<Longrightarrow> fsub ar (o_y m) r < 0 \<Longrightarrow>
           o_y (collide_bounds ar wb m) = r \<and>
           vec_y (o_velocity (collide_bounds ar wb m)) = fmul ar (- vec_y (o_velocity m)) (flit ar 0.8)"
  using assms by (auto simp add: collide_bounds_def bounce_defs)

text \<open>
  C3, as amended. A circle whose radius is there and not 0. When the left test fires on
  the moved object and \<open>radius + radius\<close> does not exceed the width, the step leaves
  \<open>x\<close> at \<open>radius\<close>; when the right test fires and the left one has not, it leaves \<open>x\<close>
  at \<open>width - radius\<close>; when the bottom test fires and \<open>(height - radius) - radius\<close> is
  not below 0, it leaves \<open>y\<close> at \<open>height - radius\<close>; when the top test fires and the
  bottom one has not, it leaves \<open>y\<close> at \<open>radius\<close>. In each case the velocity component
  of that axis is the product, as the arithmetic rounds it, of the negated velocity
  before the collision (for \<open>y\<close>: after the gravity of this step) and the literal 0.8.
\<close>

theorem bounce_restitution:
  assumes "o_type obj = Circle" and "o_radius obj = Some r" and "r \<noteq> 0"
  shows "(crosses_left ar (move_object ar g dt obj) \<and> \<not> fadd ar r r > b_width wb \<longrightarrow>
            o_x (advance ar g wb dt obj) = r \<and>
            vec_x (o_velocity (advance ar g wb dt obj)) =
              fmul ar (- vec_x (o_velocity (move_object ar g dt obj))) (flit ar 0.8)) \<and>
         (\<not> crosses_left ar (move_object ar g dt obj) \<and>
          crosses_right ar wb (move_object ar g dt obj) \<longrightarrow>
            o_x (advance ar g wb dt obj) = fsub ar (b_width wb) r \<and>
            vec_x (o_velocity (advance ar g wb dt obj)) =
              fmul ar (- vec_x (o_velocity (move_object ar g dt obj))) (flit ar 0.8)) \<and>
         (crosses_bottom ar wb (move_object ar g dt obj) \<and>
          \<not> fsub ar (fsub ar (b_height wb) r) r < 0 \<longrightarrow>
            o_y (advance ar g wb dt obj) = fsub ar (b_height wb) r \<and>
            vec_y (o_velocity (advance ar g wb dt obj)) =
              fmul ar (- vec_y (o_velocity (move_object ar g dt obj))) (flit ar 0.8)) \<and>
         (\<not> crosses_bottom ar wb (move_object ar g dt obj) \<and>
          crosses_top ar (move_object ar g dt obj) \<longrightarrow>
            o_y (advance ar g wb dt obj) = r \<and>
            vec_y (o_velocity (advance ar g wb dt obj)) =
              fmul ar (- vec_y (o_velocity (move_object ar g dt obj))) (flit ar 0.8))"
proof -
  let ?m = "move_object ar g dt obj"
  have m: "o_type ?m = Circle" "o_radius ?m = Some r"
    using assms by (simp_all add: move_object_fields)
  have r: "radius_of ?m = r" "collidable ?m"
    using m assms(3) by (simp_all add: cross_defs)
  show ?thesis
    unfolding advance_def crosses_left_def crosses_right_def crosses_bottom_def crosses_top_def r
    using collide_x [OF m assms(3), where ar = ar and wb = wb]
      collide_y [OF m assms(3), where ar = ar and wb = wb]
    by blast
qed

theorem bounce_restitution_witness:
  "crosses_left binary64 (move_object binary64 default_gravity (1 / 64) (circle_at 21 21 (- 2) (- 3) 20)) \<and>
   crosses_top binary64 (move_object binary64 default_gravity (1 / 64) (circle_at 21 21 (- 2) (- 3) 20)) \<and>
   o_x (advance binary64 default_gravity default_bounds (1 / 64) (circle_at 21 21 (- 2) (- 3) 20)) = 20 \<and>
   vec_x (o_velocity (advance binary64 default_gravity default_bounds (1 / 64)
     (circle_at 21 21 (- 2) (- 3) 20))) = fmul binary64 2 (flit binary64 0.8) \<and>
   o_y (advance binary64 default_gravity default_bounds (1 / 64) (circle_at 21 21 (- 2) (- 3) 20)) = 20 \<and>
   crosses_right binary64 default_bounds
     (move_object binary64 default_gravity (1 / 64) (circle_at 779 579 2 3 20)) \<and>
   crosses_bottom binary64 default_bounds
     (move_object binary64 default_gravity (1 / 64) (circle_at 779 579 2 3 20)) \<and>
   o_x (advance binary64 default_gravity default_bounds (1 / 64) (circle_at 779 579 2 3 20)) = 780 \<and>
   vec_x (o_velocity (advance binary64 default_gravity default_bounds (1 / 64)
     (circle_at 779 579 2 3 20))) = fmul binary64 (- 2) (flit binary64 0.8) \<and>
   o_y (advance binary64 default_gravity default_bounds (1 / 64) (circle_at 779 579 2 3 20)) = 580"
proof -
  let ?a = "circle_at 21 21 (- 2) (- 3) 20" and ?b = "circle_at 779 579 2 3 20"
  let ?ma = "move_object binary64 default_gravity (1 / 64) ?a"
  let ?mb = "move_object binary64 default_gravity (1 / 64) ?b"
  have hyps: "o_type ?a = Circle" "o_radius ?a = Some 20" "o_type ?b = Circle"
    "o_radius ?b = Some 20" "(20::real) \<noteq> 0"
    by (simp_all add: circle_at_def)
  have ca: "crosses_left binary64 ?ma" "\<not> crosses_bottom binary64 default_bounds ?ma"
    "crosses_top binary64 ?ma"
    unfolding moved_corner_a by (simp_all add: example_defs fl_eval)
  have cb: "\<not> crosses_left binary64 ?mb" "crosses_right binary64 default_bounds ?mb"
    "crosses_bottom binary64 default_bounds ?mb"
    unfolding moved_corner_b by (simp_all add: example_defs fl_eval)
  have fit: "\<not> fadd binary64 20 20 > b_width default_bounds"
    "\<not> fsub binary64 (fsub binary64 (b_height default_bounds) 20) 20 < 0"
    by (simp_all add: default_bounds_def fl_eval)
  have va: "vec_x (o_velocity ?ma) = - 2" and vb: "vec_x (o_velocity ?mb) = 2"
    by (simp_all add: move_object_fields circle_at_def)
  have flush: "fsub binary64 (b_width default_bounds) 20 = 780"
    "fsub binary64 (b_height default_bounds) 20 = 580"
    by (simp_all add: default_bounds_def fl_eval)
  have a: "o_x (advance binary64 default_gravity default_bounds (1 / 64) ?a) = 20"
    "vec_x (o_velocity (advance binary64 default_gravity default_bounds (1 / 64) ?a)) =
       fmul binary64 (- vec_x (o_velocity ?ma)) (flit binary64 0.8)"
    "o_y (advance binary64 default_gravity default_bounds (1 / 64) ?a) = 20"
    using bounce_restitution [OF hyps(1,2,5), of binary64 default_gravity "1 / 64" default_bounds]
      ca fit by blast+
  have b: "o_x (advance binary64 default_gravity default_bounds (1 / 64) ?b) =
       fsub binary64 (b_width default_bounds) 20"
    "vec_x (o_velocity (advance binary64 default_gravity default_bounds (1 / 64) ?b)) =
       fmul binary64 (- vec_x (o_velocity ?mb)) (flit binary64 0.8)"
    "o_y (advance binary64 default_gravity default_bounds (1 / 64) ?b) =
       fsub binary64 (b_height default_bounds) 20"
    using bounce_restitution [OF hyps(3,4,5), of binary64 default_gravity "1 / 64" default_bounds]
      cb fit by blast+
  show ?thesis
    using ca cb a b unfolding va vb flush by simp
qed

text \<open>
  The claim as stated fails three times, in the arithmetic of the code. A circle of
  radius 450 in the 800 wide world that crosses the left plane is first set to
  \<open>x = 450\<close>, which the next test finds beyond the right plane: it ends at \<open>x = 350\<close> with
  its velocity reflected twice. A circle of radius 0 fails the truthiness guard of the
  block and leaves the bounds unhindered. And the velocity \<open>- 3\<close> is reflected to
  \<open>2.4000000000000004\<close>, the double nearest to the product of 3 and the double \<open>0.8\<close>,
  which is not 0.8 times 3.
\<close>

theorem bounce_counterexample:
  "crosses_left binary64
     (move_object binary64 default_gravity (1 / 64) (circle_at 438 100 2 0 450)) \<and>
   o_x (advance binary64 default_gravity default_bounds (1 / 64) (circle_at 438 100 2 0 450)) = 350 \<and>
   o_x (advance binary64 default_gravity default_bounds (1 / 64) (circle_at 438 100 2 0 450)) \<noteq> 450 \<and>
   vec_x (o_velocity (advance binary64 default_gravity default_bounds (1 / 64)
     (circle_at 438 100 2 0 450))) = 1441151880758559 / 1125899906842624 \<and>
   vec_x (o_velocity (advance binary64 default_gravity default_bounds (1 / 64)
     (circle_at 438 100 2 0 450))) \<noteq> fmul binary64 (- 2) (flit binary64 0.8) \<and>
   o_type (circle_at (- 5) 100 2 0 0) = Circle \<and>
   o_x (move_object binary64 default_gravity (1 / 64) (circle_at (- 5) 100 2 0 0)) = - 25 / 8 \<and>
   advance binary64 default_gravity default_bounds (1 / 64) (circle_at (- 5) 100 2 0 0) =
     move_object binary64 default_gravity (1 / 64) (circle_at (- 5) 100 2 0 0) \<and>
   crosses_left binary64
     (move_object binary64 default_gravity (1 / 64) (circle_at 21 100 (- 3) 0 20)) \<and>
   vec_x (o_velocity (advance binary64 default_gravity default_bounds (1 / 64)
     (circle_at 21 100 (- 3) 0 20))) = 1351079888211149 / 562949953421312 \<and>
   \<bar>vec_x (o_velocity (advance binary64 default_gravity default_bounds (1 / 64)
     (circle_at 21 100 (- 3) 0 20)))\<bar> \<noteq> 0.8 * \<bar>- 3\<bar>"
proof -
  have big: "crosses_left binary64
     (move_object binary64 default_gravity (1 / 64) (circle_at 438 100 2 0 450))"
    unfolding moved_oversized by (simp add: example_defs fl_eval)
  have three: "crosses_left binary64
     (move_object binary64 default_gravity (1 / 64) (circle_at 21 100 (- 3) 0 20))"
    unfolding moved_three by (simp add: example_defs fl_eval)
  have zero: "o_x (move_object binary64 default_gravity (1 / 64) (circle_at (- 5) 100 2 0 0)) = - 25 / 8"
    "advance binary64 default_gravity default_bounds (1 / 64) (circle_at (- 5) 100 2 0 0) =
     move_object binary64 default_gravity (1 / 64) (circle_at (- 5) 100 2 0 0)"
    by (simp_all add: advance_def collide_bounds_def move_object_fields circle_at_def fl_eval)
  have c08: "fmul binary64 (- 2) (flit binary64 0.8) = - 3602879701896397 / 2251799813685248"
    by (simp add: fl_eval)
  show ?thesis
    unfolding step_oversized step_three c08 using big three zero
    by (simp add: circle_at_def)
qed

text \<open>
  C5, as amended. A circle whose radius is there and not 0, in an arithmetic whose
  products keep the sign (as those of \<open>binary64\<close> do, \<open>binary64_sign\<close>). Flush against a
  plane with the velocity component of that axis directed outward (for \<open>y\<close>: before and
  after the gravity of this step): if the test of that plane fires on the moved object,
  and the other test of the axis does not (as in C3), the step leaves the position at
  the flush value and the velocity component directed inward or zero.
\<close>

theorem flush_outward_step:
  assumes "o_type obj = Circle" and "o_radius obj = Some r" and "r \<noteq> 0"
    and "\<forall>a b. 0 \<le> a \<longrightarrow> 0 \<le> b \<longrightarrow> 0 \<le> fmul ar a b"
    and "\<forall>a b. a \<le> 0 \<longrightarrow> 0 \<le> b \<longrightarrow> fmul ar a b \<le> 0"
    and "0 \<le> flit ar 0.8"
  shows "(o_x obj = r \<and> vec_x (o_velocity obj) < 0 \<and>
          crosses_left ar (move_object ar g dt obj) \<and> \<not> fadd ar r r > b_width wb \<longrightarrow>
            o_x (advance ar g wb dt obj) = r \<and>
            0 \<le> vec_x (o_velocity (advance ar g wb dt obj))) \<and>
         (o_x obj = fsub ar (b_width wb) r \<and> 0 < vec_x (o_velocity obj) \<and>
          \<not> crosses_left ar (move_object ar g dt obj) \<and>
          crosses_right ar wb (move_object ar g dt obj) \<longrightarrow>
            o_x (advance ar g wb dt obj) = fsub ar (b_width wb) r \<and>
            vec_x (o_velocity (advance ar g wb dt obj)) \<le> 0) \<and>
         (o_y obj = fsub ar (b_height wb) r \<and> 0 < vec_y (o_velocity obj) \<and>
          0 < vec_y (o_velocity (move_object ar g dt obj)) \<and>
          crosses_bottom ar wb (move_object ar g dt obj) \<and>
          \<not> fsub ar (fsub ar (b_height wb) r) r < 0 \<longrightarrow>
            o_y (advance ar g wb dt obj) = fsub ar (b_height wb) r \<and>
            vec_y (o_velocity (advance ar g wb dt obj)) \<le> 0) \<and>
         (o_y obj = r \<and> vec_y (o_velocity obj) < 0 \<and>
          vec_y (o_velocity (move_object ar g dt obj)) < 0 \<and>
          \<not> crosses_bottom ar wb (move_object ar g dt obj) \<and>
          crosses_top ar (move_object ar g dt obj) \<longrightarrow>
            o_y (advance ar g wb dt obj) = r \<and>
            0 \<le> vec_y (o_velocity (advance ar g wb dt obj)))"
proof -
  let ?m = "move_object ar g dt obj"
  have m: "o_type ?m = Circle" "o_radius ?m = Some r"
    using assms(1,2) by (simp_all add: move_object_fields)
  have r: "radius_of ?m = r" "collidable ?m"
    using m assms(3) by (simp_all add: cross_defs)
  have vx: "vec_x (o_velocity ?m) = vec_x (o_velocity obj)"
    by (simp add: move_object_fields)
  have up: "0 \<le> fmul ar (- v) (flit ar 0.8)" if "v < 0" for v
    using assms(4,6) that by simp
  have down: "fmul ar (- v) (flit ar 0.8) \<le> 0" if "0 < v" for v
    using assms(5,6) that by simp
  note cx = collide_x [OF m assms(3), where ar = ar and wb = wb]
  note cy = collide_y [OF m assms(3), where ar = ar and wb = wb]
  have left: "o_x (advance ar g wb dt obj) = r \<and> 0 \<le> vec_x (o_velocity (advance ar g wb dt obj))"
    if "vec_x (o_velocity obj) < 0" "crosses_left ar ?m" "\<not> fadd ar r r > b_width wb"
    using cx(1) that up [OF that(1)] unfolding advance_def crosses_left_def r vx by simp
  have right: "o_x (advance ar g wb dt obj) = fsub ar (b_width wb) r \<and>
      vec_x (o_velocity (advance ar g wb dt obj)) \<le> 0"
    if "0 < vec_x (o_velocity obj)" "\<not> crosses_left ar ?m" "crosses_right ar wb ?m"
    using cx(2) that down [OF that(1)] unfolding advance_def crosses_left_def crosses_right_def r vx
    by simp
  have bottom: "o_y (advance ar g wb dt obj) = fsub ar (b_height wb) r \<and>
      vec_y (o_velocity (advance ar g wb dt obj)) \<le> 0"
    if "0 < vec_y (o_velocity ?m)" "crosses_bottom ar wb ?m"
      "\<not> fsub ar (fsub ar (b_height wb) r) r < 0"
    using cy(1) that down [OF that(1)] unfolding advance_def crosses_bottom_def r by simp
  have top: "o_y (advance ar g wb dt obj) = r \<and> 0 \<le> vec_y (o_velocity (advance ar g wb dt obj))"
    if "vec_y (o_velocity ?m) < 0" "\<not> crosses_bottom ar wb ?m" "crosses_top ar ?m"
    using cy(2) that up [OF that(1)] unfolding advance_def crosses_bottom_def crosses_top_def r
    by simp
  show ?thesis using left right bottom top by blast
qed

theorem flush_outward_step_witness:
  "o_x (advance binary64 default_gravity default_bounds (1 / 64) (circle_at 20 20 (- 2) (- 3) 20)) = 20 \<and>
   0 \<le> vec_x (o_velocity (advance binary64 default_gravity default_bounds (1 / 64)
     (circle_at 20 20 (- 2) (- 3) 20))) \<and>
   o_y (advance binary64 default_gravity default_bounds (1 / 64) (circle_at 20 20 (- 2) (- 3) 20)) = 20 \<and>
   0 \<le> vec_y (o_velocity (advance binary64 default_gravity default_bounds (1 / 64)
     (circle_at 20 20 (- 2) (- 3) 20))) \<and>
   o_x (advance binary64 default_gravity default_bounds (1 / 64) (circle_at 780 580 2 3 20)) = 780 \<and>
   vec_x (o_velocity (advance binary64 default_gravity default_bounds (1 / 64)
     (circle_at 780 580 2 3 20))) \<le> 0 \<and>
   o_y (advance binary64 default_gravity default_bounds (1 / 64) (circle_at 780 580 2 3 20)) = 580 \<and>
   vec_y (o_velocity (advance binary64 default_gravity default_bounds (1 / 64)
     (circle_at 780 580 2 3 20))) \<le> 0"
proof -
  let ?a = "circle_at 20 20 (- 2) (- 3) 20" and ?b = "circle_at 780 580 2 3 20"
  let ?ma = "move_object binary64 default_gravity (1 / 64) ?a"
  let ?mb = "move_object binary64 default_gravity (1 / 64) ?b"
  have hyps: "o_type ?a = Circle" "o_radius ?a = Some 20" "o_type ?b = Circle"
    "o_radius ?b = Some 20" "(20::real) \<noteq> 0"
    by (simp_all add: circle_at_def)
  have ca: "crosses_left binary64 ?ma" "\<not> crosses_bottom binary64 default_bounds ?ma"
    "crosses_top binary64 ?ma" "vec_y (o_velocity ?ma) < 0"
    unfolding moved_flush_a by (simp_all add: example_defs fl_eval)
  have cb: "\<not> crosses_left binary64 ?mb" "crosses_right binary64 default_bounds ?mb"
    "crosses_bottom binary64 default_bounds ?mb" "0 < vec_y (o_velocity ?mb)"
    unfolding moved_flush_b by (simp_all add: example_defs fl_eval)
  have fit: "\<not> fadd binary64 20 20 > b_width default_bounds"
    "\<not> fsub binary64 (fsub binary64 (b_height default_bounds) 20) 20 < 0"
    by (simp_all add: default_bounds_def fl_eval)
  have flush: "fsub binary64 (b_width default_bounds) 20 = 780"
    "fsub binary64 (b_height default_bounds) 20 = 580"
    by (simp_all add: default_bounds_def fl_eval)
  have a0: "o_x ?a = 20 \<and> vec_x (o_velocity ?a) < 0" "o_y ?a = 20 \<and> vec_y (o_velocity ?a) < 0"
    by (simp_all add: circle_at_def)
  have b0: "o_x ?b = fsub binary64 (b_width default_bounds) 20 \<and> 0 < vec_x (o_velocity ?b)"
    "o_y ?b = fsub binary64 (b_height default_bounds) 20 \<and> 0 < vec_y (o_velocity ?b)"
    unfolding flush by (simp_all add: circle_at_def)
  have a: "o_x (advance binary64 default_gravity default_bounds (1 / 64) ?a) = 20 \<and>
      0 \<le> vec_x (o_velocity (advance binary64 default_gravity default_bounds (1 / 64) ?a))"
    "o_y (advance binary64 default_gravity default_bounds (1 / 64) ?a) = 20 \<and>
      0 \<le> vec_y (o_velocity (advance binary64 default_gravity default_bounds (1 / 64) ?a))"
    using flush_outward_step [OF hyps(1,2,5) binary64_sign,
        of default_gravity "1 / 64" default_bounds] a0 ca fit
    by blast+
  have b: "o_x (advance binary64 default_gravity default_bounds (1 / 64) ?b) =
        fsub binary64 (b_width default_bounds) 20 \<and>
      vec_x (o_velocity (advance binary64 default_gravity default_bounds (1 / 64) ?b)) \<le> 0"
    "o_y (advance binary64 default_gravity default_bounds (1 / 64) ?b) =
        fsub binary64 (b_height default_bounds) 20 \<and>
      vec_y (o_velocity (advance binary64 default_gravity default_bounds (1 / 64) ?b)) \<le> 0"
    using flush_outward_step [OF hyps(3,4,5) binary64_sign,
        of default_gravity "1 / 64" default_bounds] b0 cb fit
    by blast+
  show ?thesis using a b unfolding flush by simp
qed

text \<open>
  The claim as stated fails in the arithmetic of the code whenever the move, as
  computed, does not cross the plane. Flush against the right plane at \<open>x = 780\<close> with
  the outward velocity \<open>2 ^ (- 47)\<close>, a step of \<open>1 / 64\<close> s adds less than half the
  spacing of the doubles at 780: \<open>x\<close> stays 780, no test fires, and the velocity stays
  outward. Flush against the top plane with the outward velocity \<open>- 1 / 16\<close>, the
  default gravity turns the velocity around within the step: the ball moves into the
  bounds, to \<open>y = 20.085...\<close>, and nothing clamps it to 20.
\<close>

theorem flush_outward_counterexample:
  "o_x (circle_at 780 100 (1 / 2 ^ 47) 0 20) = fsub binary64 (b_width default_bounds) 20 \<and>
   0 < vec_x (o_velocity (circle_at 780 100 (1 / 2 ^ 47) 0 20)) \<and>
   o_x (advance binary64 default_gravity default_bounds (1 / 64)
     (circle_at 780 100 (1 / 2 ^ 47) 0 20)) = 780 \<and>
   0 < vec_x (o_velocity (advance binary64 default_gravity default_bounds (1 / 64)
     (circle_at 780 100 (1 / 2 ^ 47) 0 20))) \<and>
   o_y (circle_at 100 20 2 (- 1 / 16) 20) = 20 \<and>
   vec_y (o_velocity (circle_at 100 20 2 (- 1 / 16) 20)) < 0 \<and>
   o_y (advance binary64 default_gravity default_bounds (1 / 64)
     (circle_at 100 20 2 (- 1 / 16) 20)) = 2826727571901645 / 140737488355328 \<and>
   o_y (advance binary64 default_gravity default_bounds (1 / 64)
     (circle_at 100 20 2 (- 1 / 16) 20)) \<noteq> 20"
proof -
  have slow: "circle_at 780 100 (1 / 2 ^ 47) 0 20 = circle_at 780 100 (1 / 140737488355328) 0 20"
    by simp
  have flush: "fsub binary64 (b_width default_bounds) 20 = 780"
    by (simp add: default_bounds_def fl_eval)
  show ?thesis
    unfolding slow step_flush_slow step_flush_top flush by (simp add: circle_at_def)
qed

lemma advance_no_crossing:
  "\<not> crosses_any ar wb (move_object ar g d obj) \<Longrightarrow> advance ar g wb d obj = move_object ar g d obj"
  by (auto simp add: advance_def collide_bounds_def crosses_any_def cross_defs bounce_defs
      split: option.splits)

lemma no_crossing_take: "no_crossing ar g wb ds obj \<Longrightarrow> no_crossing ar g wb (take k ds) obj"
proof (induction ds arbitrary: k obj)
  case Nil
  then show ?case by simp
next
  case (Cons d ds)
  then show ?case by (cases k) simp_all
qed

lemma accumulation_general:
  "no_crossing ar g wb ds obj \<Longrightarrow>
   vec_y (o_velocity (advance_steps ar g wb ds obj)) =
     velocity_accumulated ar (vec_y g) (vec_y (o_velocity obj)) ds \<and>
   o_y (advance_steps ar g wb ds obj) =
     position_accumulated ar (vec_y g) (vec_y (o_velocity obj)) (o_y obj) ds"
proof (induction ds arbitrary: obj)
  case Nil
  then show ?case by simp
next
  case (Cons d ds)
  let ?o1 = "advance ar g wb d obj"
  from Cons.prems have nc: "\<not> crosses_any ar wb (move_object ar g d obj)"
    and rest: "no_crossing ar g wb ds ?o1"
    by simp_all
  have o1: "?o1 = move_object ar g d obj" using nc by (rule advance_no_crossing)
  have v1: "vec_y (o_velocity ?o1) = fadd ar (vec_y (o_velocity obj)) (fmul ar (vec_y g) d)"
    and y1: "o_y ?o1 = fadd ar (o_y obj)
      (fmul ar (fmul ar (fadd ar (vec_y (o_velocity obj)) (fmul ar (vec_y g) d)) d) 60)"
    unfolding o1 by (simp_all add: move_object_fields)
  show ?case using Cons.IH [OF rest] by (simp add: v1 y1)
qed

text \<open>In the arithmetic that does not round, the accumulations are the sums of the claim.\<close>

lemma accumulated_exact:
  "velocity_accumulated exact_arith g v ds = v + g * sum_list ds"
  "position_accumulated exact_arith g v y ds =
     y + (\<Sum>i<length ds. (v + g * sum_list (take (Suc i) ds)) * ds ! i * 60)"
proof -
  show "velocity_accumulated exact_arith g v ds = v + g * sum_list ds"
    by (induction ds arbitrary: v) (simp_all add: exact_arith_def algebra_simps)
  show "position_accumulated exact_arith g v y ds =
     y + (\<Sum>i<length ds. (v + g * sum_list (take (Suc i) ds)) * ds ! i * 60)"
  proof (induction ds arbitrary: v y)
    case Nil
    then show ?case by simp
  next
    case (Cons d ds)
    have shift: "(\<Sum>i<length (d # ds). F i) = F 0 + (\<Sum>i<length ds. F (Suc i))"
      for F :: "nat \<Rightarrow> real"
      by (simp add: sum.lessThan_Suc_shift del: sum.lessThan_Suc)
    have "position_accumulated exact_arith g v y (d # ds) =
        y + (v + g * d) * d * 60 +
        (\<Sum>i<length ds. (v + g * d + g * sum_list (take (Suc i) ds)) * ds ! i * 60)"
      using Cons.IH [of "v + g * d" "y + (v + g * d) * d * 60"] by (simp add: exact_arith_def)
    also have "\<dots> = y + (\<Sum>i<length (d # ds).
        (v + g * sum_list (take (Suc i) (d # ds))) * (d # ds) ! i * 60)"
      unfolding shift by (simp add: algebra_simps)
    finally show ?case .
  qed
qed

text \<open>
  C6, as amended. An object that starts with velocity zero, under gravity \<open>g > 0\<close>,
  stepped with positive deltas \<open>ds\<close> none of which fires a test of the collision block:
  its \<open>velocity.y\<close> at the end, and after every step, is the accumulation
  \<open>((0 + g d1) + g d2) + ...\<close> and its \<open>y\<close> is the initial \<open>y\<close> with the velocity of each
  step times its delta times 60 added step by step, every operation as the arithmetic
  rounds it. Where nothing rounds, these are \<open>g\<close> times the sum of the deltas and the
  sum of the claim (\<open>accumulated_exact\<close>).
\<close>

theorem free_fall_accumulation:
  assumes "o_velocity obj = \<lparr>vec_x = 0, vec_y = 0\<rparr>" and "0 < vec_y g"
    and "\<forall>d\<in>set ds. 0 < d" and "no_crossing ar g wb ds obj"
  shows "vec_y (o_velocity (advance_steps ar g wb ds obj)) =
           velocity_accumulated ar (vec_y g) 0 ds \<and>
         (\<forall>i<length ds. vec_y (o_velocity (advance_steps ar g wb (take (Suc i) ds) obj)) =
              velocity_accumulated ar (vec_y g) 0 (take (Suc i) ds)) \<and>
         o_y (advance_steps ar g wb ds obj) =
           position_accumulated ar (vec_y g) 0 (o_y obj) ds"
proof -
  have v0: "vec_y (o_velocity obj) = 0" using assms(1) by simp
  have pre: "vec_y (o_velocity (advance_steps ar g wb (take k ds) obj)) =
      velocity_accumulated ar (vec_y g) 0 (take k ds)" for k
    using accumulation_general [OF no_crossing_take [OF assms(4)], of k] v0 by simp
  have fin: "vec_y (o_velocity (advance_steps ar g wb ds obj)) =
      velocity_accumulated ar (vec_y g) 0 ds"
    and pos: "o_y (advance_steps ar g wb ds obj) =
      position_accumulated ar (vec_y g) 0 (o_y obj) ds"
    using accumulation_general [OF assms(4)] v0 by simp_all
  show ?thesis using fin pos pre by blast
qed

lemma fall_lits:
  "flit binary64 0.016 = 1152921504606847 / 72057594037927936"
  "flit binary64 0.017 = 1224979098644775 / 72057594037927936"
  "flit binary64 9.81 = 5522539043063071 / 562949953421312"
  by (simp_all add: fl_eval)

theorem free_fall_accumulation_witness:
  "no_crossing binary64 default_gravity default_bounds [flit binary64 0.016, flit binary64 0.017]
     (circle_at 100 100 0 0 20) \<and>
   vec_y (o_velocity (advance_steps binary64 default_gravity default_bounds
      [flit binary64 0.016, flit binary64 0.017] (circle_at 100 100 0 0 20))) =
     velocity_accumulated binary64 (flit binary64 9.81) 0 [flit binary64 0.016, flit binary64 0.017] \<and>
   o_y (advance_steps binary64 default_gravity default_bounds
      [flit binary64 0.016, flit binary64 0.017] (circle_at 100 100 0 0 20)) =
     position_accumulated binary64 (flit binary64 9.81) 0 100
       [flit binary64 0.016, flit binary64 0.017]"
proof -
  let ?ds = "[flit binary64 0.016, flit binary64 0.017]"
  let ?o = "circle_at 100 100 0 0 20"
  have h1: "o_velocity ?o = \<lparr>vec_x = 0, vec_y = 0\<rparr>" by (simp add: circle_at_def)
  have h2: "0 < vec_y default_gravity" by (simp add: default_gravity_def fl_eval)
  have h3: "\<forall>d\<in>set ?ds. 0 < d" unfolding fall_lits by simp
  have c1: "\<not> crosses_any binary64 default_bounds (move_object binary64 default_gravity
      (flit binary64 0.016) ?o)"
    unfolding moved_fall_1 by (simp add: crosses_any_def example_defs fl_eval)
  have c2: "\<not> crosses_any binary64 default_bounds (move_object binary64 default_gravity
      (flit binary64 0.017)
      (advance binary64 default_gravity default_bounds (flit binary64 0.016) ?o))"
    unfolding step_fall_1 moved_fall_2 by (simp add: crosses_any_def example_defs fl_eval)
  have h4: "no_crossing binary64 default_gravity default_bounds ?ds ?o"
    using c1 c2 by simp
  have g: "vec_y default_gravity = flit binary64 9.81" and y: "o_y ?o = 100"
    by (simp_all add: default_gravity_def circle_at_def)
  show ?thesis
    using free_fall_accumulation [OF h1 h2 h3 h4] h4 unfolding g y by blast
qed

text \<open>
  The claim as stated fails in the arithmetic of the code: after the two steps of 16 ms
  and 17 ms from rest under the default gravity, with no plane near, \<open>velocity.y\<close> is
  \<open>0.3237300000000001\<close>, which is neither the gravity times the sum of the two deltas
  nor the double \<open>0.32373\<close> that the code would compute for that product.
\<close>

theorem free_fall_counterexample:
  "o_velocity (circle_at 100 100 0 0 20) = \<lparr>vec_x = 0, vec_y = 0\<rparr> \<and>
   no_crossing binary64 default_gravity default_bounds [flit binary64 0.016, flit binary64 0.017]
     (circle_at 100 100 0 0 20) \<and>
   vec_y (o_velocity (advance_steps binary64 default_gravity default_bounds
      [flit binary64 0.016, flit binary64 0.017] (circle_at 100 100 0 0 20))) =
     1457950307368651 / 4503599627370496 \<and>
   vec_y (o_velocity (advance_steps binary64 default_gravity default_bounds
      [flit binary64 0.016, flit binary64 0.017] (circle_at 100 100 0 0 20))) \<noteq>
     vec_y default_gravity * (flit binary64 0.016 + flit binary64 0.017) \<and>
   vec_y (o_velocity (advance_steps binary64 default_gravity default_bounds
      [flit binary64 0.016, flit binary64 0.017] (circle_at 100 100 0 0 20))) \<noteq>
     fmul binary64 (vec_y default_gravity) (fadd binary64 (flit binary64 0.016) (flit binary64 0.017))"
proof -
  let ?o = "circle_at 100 100 0 0 20"
  have c1: "\<not> crosses_any binary64 default_bounds (move_object binary64 default_gravity
      (flit binary64 0.016) ?o)"
    unfolding moved_fall_1 by (simp add: crosses_any_def example_defs fl_eval)
  have c2: "\<not> crosses_any binary64 default_bounds (move_object binary64 default_gravity
      (flit binary64 0.017)
      (advance binary64 default_gravity default_bounds (flit binary64 0.016) ?o))"
    unfolding step_fall_1 moved_fall_2 by (simp add: crosses_any_def example_defs fl_eval)
  have nc: "no_crossing binary64 default_gravity default_bounds
      [flit binary64 0.016, flit binary64 0.017] ?o"
    using c1 c2 by simp
  have run: "advance_steps binary64 default_gravity default_bounds
      [flit binary64 0.016, flit binary64 0.017] ?o =
      circle_at 100 (7070713775752769 / 70368744177664) 0 (1457950307368651 / 4503599627370496) 20"
    unfolding advance_steps.simps step_fall_1 step_fall_2 by (rule refl)
  have prod: "fmul binary64 (vec_y default_gravity)
      (fadd binary64 (flit binary64 0.016) (flit binary64 0.017)) =
      5831801229474603 / 18014398509481984"
    by (simp add: default_gravity_def fl_eval)
  have g: "vec_y default_gravity = 5522539043063071 / 562949953421312"
    by (simp add: default_gravity_def fl_eval)
  have v0: "o_velocity ?o = \<lparr>vec_x = 0, vec_y = 0\<rparr>" by (simp add: circle_at_def)
  have a: "vec_y (o_velocity (advance_steps binary64 default_gravity default_bounds
      [flit binary64 0.016, flit binary64 0.017] ?o)) = 1457950307368651 / 4503599627370496"
    unfolding run by (simp add: circle_at_def)
  have b: "vec_y (o_velocity (advance_steps binary64 default_gravity default_bounds
      [flit binary64 0.016, flit binary64 0.017] ?o)) \<noteq>
      vec_y default_gravity * (flit binary64 0.016 + flit binary64 0.017)"
    unfolding a unfolding g fall_lits by simp
  have c: "vec_y (o_velocity (advance_steps binary64 default_gravity default_bounds
      [flit binary64 0.016, flit binary64 0.017] ?o)) \<noteq>
      fmul binary64 (vec_y default_gravity)
        (fadd binary64 (flit binary64 0.016) (flit binary64 0.017))"
    unfolding a prod by simp
  show ?thesis using v0 nc a b c by blast
qed

section \<open>Properties of the relay server\<close>

lemma broadcast_fold:
  "sent (fold (\<lambda>client s. if readyState s client = OPEN then ws_send client m s else s) cs st) =
     sent st @ map (\<lambda>c. (c, m)) (filter (\<lambda>c. readyState st c = OPEN) cs) \<and>
   clients (fold (\<lambda>client s. if readyState s client = OPEN then ws_send client m s else s) cs st) = clients st \<and>
   readyState (fold (\<lambda>client s. if readyState s client = OPEN then ws_send client m s else s) cs st) = readyState st \<and>
   console (fold (\<lambda>client s. if readyState s client = OPEN then ws_send client m s else s) cs st) = console st"
proof (induction cs arbitrary: st)
  case Nil
  then show ?case by simp
next
  case (Cons c cs)
  show ?case
  proof (cases "readyState st c = OPEN")
    case True
    then show ?thesis using Cons.IH [of "ws_send c m st"] by (simp add: ws_send_def)
  next
    case False
    then show ?thesis using Cons.IH [of st] by simp
  qed
qed

lemma broadcastToAll_effect:
  "sent (broadcastToAll m st) =
     sent st @ map (\<lambda>c. (c, m)) (filter (\<lambda>c. readyState st c = OPEN) (clients st))"
  "clients (broadcastToAll m st) = clients st"
  "readyState (broadcastToAll m st) = readyState st"
  "console (broadcastToAll m st) = console st"
  unfolding broadcastToAll_def using broadcast_fold [of m "clients st" st] by simp_all

lemma one_each:
  "distinct cs \<Longrightarrow>
   map snd (filter (\<lambda>(d, m'). d = c) (map (\<lambda>c. (c, m)) (filter P cs))) =
     (if c \<in> set cs \<and> P c then [m] else [])"
  by (induction cs) auto

lemma clients_stay_distinct:
  "distinct (clients st) \<Longrightarrow>
   distinct (clients (register c st)) \<and> distinct (clients (onclose c st)) \<and>
   distinct (clients (onerror c st))"
  by (simp add: register_def onclose_def onerror_def set_add_def set_delete_def console_log_def)

text \<open>
  C1. A frame from the connection \<open>a\<close> that parses to a message of type
  \<open>physics_update\<close>: the handler returns, and has called \<open>send\<close> once on every connection
  of the \<open>clients\<close> set whose \<open>readyState\<close> is OPEN, \<open>a\<close> among them when it is one, and on
  no other; the message sent has the type \<open>physics_update\<close>, the \<open>data\<close> of the message
  received and the server's \<open>Date.now()\<close> as \<open>timestamp\<close>. That \<open>clients\<close> holds no
  connection twice is what a Set gives, and \<open>clients_stay_distinct\<close> shows it kept.
\<close>

theorem physics_update_broadcast:
  assumes "JSON_parse event_data = Some data"
    and "get_prop data ''type'' = Inr (JStr ''physics_update'')"
    and "distinct (clients st)"
  shows "\<exists>d st'. get_prop data ''data'' = Inr d \<and>
           onmessage JSON_parse now a event_data st = Inr st' \<and>
           sent st' = sent st @
             map (\<lambda>c. (c, JObj [(''type'', JStr ''physics_update''), (''data'', d),
                               (''timestamp'', JNum (of_int now))]))
               (filter (\<lambda>c. readyState st c = OPEN) (clients st)) \<and>
           (\<forall>c. sent_to c st' = sent_to c st @
              (if c \<in> set (clients st) \<and> readyState st c = OPEN
               then [JObj [(''type'', JStr ''physics_update''), (''data'', d),
                           (''timestamp'', JNum (of_int now))]]
               else [])) \<and>
           (a \<in> set (clients st) \<and> readyState st a = OPEN \<longrightarrow>
              sent_to a st' = sent_to a st @
                [JObj [(''type'', JStr ''physics_update''), (''data'', d),
                       (''timestamp'', JNum (of_int now))]]) \<and>
           clients st' = clients st \<and> readyState st' = readyState st"
proof -
  obtain d where d: "get_prop data ''data'' = Inr d"
    using assms(2) by (cases data) simp_all
  let ?m = "physics_update_message d now"
  let ?st = "broadcastToAll ?m (console_log (LogReceived data) st)"
  have run: "onmessage JSON_parse now a event_data st = Inr ?st"
    using assms(1,2) d by (simp add: onmessage_def onmessage_try_def)
  have s: "sent ?st = sent st @ map (\<lambda>c. (c, ?m)) (filter (\<lambda>c. readyState st c = OPEN) (clients st))"
    and c: "clients ?st = clients st" and r: "readyState ?st = readyState st"
    by (simp_all add: broadcastToAll_effect console_log_def)
  have "sent_to c ?st = sent_to c st @ (if c \<in> set (clients st) \<and> readyState st c = OPEN then [?m] else [])" for c
  proof -
    have "map snd (filter (\<lambda>(d, m'). d = c)
            (map (\<lambda>c. (c, ?m)) (filter (\<lambda>c. readyState st c = OPEN) (clients st)))) =
          (if c \<in> set (clients st) \<and> readyState st c = OPEN then [?m] else [])"
      by (rule one_each [OF assms(3)])
    then show ?thesis unfolding sent_to_def s by (simp only: filter_append map_append)
  qed
  note each = this
  have "a \<in> set (clients st) \<and> readyState st a = OPEN \<longrightarrow> sent_to a ?st = sent_to a st @ [?m]"
    using each [of a] by simp
  then show ?thesis using d run s c r each unfolding physics_update_message_def by blast
qed

theorem physics_update_broadcast_witness:
  "\<exists>st'. onmessage
           (\<lambda>frame. Some (JObj [(''type'', JStr ''physics_update''),
                                (''data'', JObj [(''action'', JStr ''test'')])]))
           1700000000000 0 ''frame''
           \<lparr>clients = [0, 1, 2], readyState = (\<lambda>c. if c = 1 then CLOSING else OPEN),
            sent = [], console = []\<rparr> = Inr st' \<and>
         sent st' =
           [(0, JObj [(''type'', JStr ''physics_update''),
                      (''data'', JObj [(''action'', JStr ''test'')]),
                      (''timestamp'', JNum 1700000000000)]),
            (2, JObj [(''type'', JStr ''physics_update''),
                      (''data'', JObj [(''action'', JStr ''test'')]),
                      (''timestamp'', JNum 1700000000000)])]"
proof -
  let ?data = "JObj [(''type'', JStr ''physics_update''), (''data'', JObj [(''action'', JStr ''test'')])]"
  let ?parse = "\<lambda>frame::string. Some ?data"
  let ?st = "\<lparr>clients = [0, 1, 2], readyState = (\<lambda>c. if c = 1 then CLOSING else OPEN),
              sent = [], console = []\<rparr>"
  have h2: "get_prop ?data ''type'' = Inr (JStr ''physics_update'')" by simp
  have h3: "distinct (clients ?st)" by simp
  obtain d st' where d: "get_prop ?data ''data'' = Inr d"
    and run: "onmessage ?parse 1700000000000 0 ''frame'' ?st = Inr st'"
    and s: "sent st' = sent ?st @
             map (\<lambda>c. (c, JObj [(''type'', JStr ''physics_update''), (''data'', d),
                               (''timestamp'', JNum (of_int 1700000000000))]))
               (filter (\<lambda>c. readyState ?st c = OPEN) (clients ?st))"
    using physics_update_broadcast
      [where JSON_parse = ?parse and event_data = "''frame''" and data = ?data and st = ?st
         and now = 1700000000000 and a = 0, OF refl h2 h3]
    by blast
  have "d = JObj [(''action'', JStr ''test'')]" using d by simp
  then show ?thesis using run s by simp
qed

text \<open>
  C2. A frame from the connection \<open>c\<close> that parses to a message of type \<open>client_ready\<close>:
  the handler returns and has called \<open>send\<close> once, on \<open>c\<close>, with the \<open>physics_init\<close>
  message whose data is the gravity \<open>(0, 9.81)\<close> and the bounds 800 by 600; what was
  sent to any other connection is what it was.
\<close>

theorem client_ready_reply:
  assumes "JSON_parse event_data = Some data"
    and "get_prop data ''type'' = Inr (JStr ''client_ready'')"
  shows "\<exists>st'. onmessage JSON_parse now c event_data st = Inr st' \<and>
           sent st' = sent st @
             [(c, JObj [(''type'', JStr ''physics_init''),
                        (''data'', JObj [(''gravity'', JObj [(''x'', JNum 0), (''y'', JNum 9.81)]),
                                         (''worldBounds'', JObj [(''width'', JNum 800), (''height'', JNum 600)])])])] \<and>
           (\<forall>c'. c' \<noteq> c \<longrightarrow> sent_to c' st' = sent_to c' st) \<and>
           clients st' = clients st"
  using assms
  by (simp add: onmessage_def onmessage_try_def ws_send_def console_log_def sent_to_def
      physics_init_message_def)

theorem client_ready_reply_witness:
  "\<exists>st'. onmessage (\<lambda>frame. Some (JObj [(''type'', JStr ''client_ready'')])) 0 2 ''frame''
           \<lparr>clients = [0, 1, 2], readyState = (\<lambda>c. if c = 1 then CLOSING else OPEN),
            sent = [], console = []\<rparr> = Inr st' \<and>
         sent st' =
           [(2, JObj [(''type'', JStr ''physics_init''),
                      (''data'', JObj [(''gravity'', JObj [(''x'', JNum 0), (''y'', JNum 9.81)]),
                                       (''worldBounds'', JObj [(''width'', JNum 800), (''height'', JNum 600)])])])] \<and>
         sent_to 0 st' = [] \<and> sent_to 1 st' = []"
proof -
  let ?data = "JObj [(''type'', JStr ''client_ready'')]"
  let ?parse = "\<lambda>frame::string. Some ?data"
  let ?st = "\<lparr>clients = [0, 1, 2], readyState = (\<lambda>c. if c = 1 then CLOSING else OPEN),
              sent = [], console = []\<rparr>"
  have h2: "get_prop ?data ''type'' = Inr (JStr ''client_ready'')" by simp
  obtain st' where run: "onmessage ?parse 0 2 ''frame'' ?st = Inr st'"
    and s: "sent st' = sent ?st @
             [(2, JObj [(''type'', JStr ''physics_init''),
                        (''data'', JObj [(''gravity'', JObj [(''x'', JNum 0), (''y'', JNum 9.81)]),
                                         (''worldBounds'', JObj [(''width'', JNum 800), (''height'', JNum 600)])])])]"
    and o: "\<forall>c'. c' \<noteq> 2 \<longrightarrow> sent_to c' st' = sent_to c' ?st"
    using client_ready_reply
      [where JSON_parse = ?parse and event_data = "''frame''" and data = ?data and st = ?st
         and now = 0 and c = 2, OF refl h2]
    by blast
  have "sent_to 0 st' = sent_to 0 ?st" "sent_to 1 st' = sent_to 1 ?st" using o by simp_all
  then show ?thesis using run s by (simp add: sent_to_def)
qed

text \<open>
  C9. A frame that \<open>JSON.parse\<close> rejects, and a frame that parses to a value whose \<open>type\<close>
  is neither \<open>physics_update\<close> nor \<open>client_ready\<close> (reading it may throw, as on \<open>null\<close>):
  the handler returns to its caller without an error; it has called \<open>send\<close> on no
  connection, the \<open>clients\<close> set and every \<open>readyState\<close> are as they were, and the console
  has at least one more entry.
\<close>

theorem discard_malformed_or_unknown:
  assumes "JSON_parse event_data = None \<or>
           (\<exists>data. JSON_parse event_data = Some data \<and>
              get_prop data ''type'' \<noteq> Inr (JStr ''physics_update'') \<and>
              get_prop data ''type'' \<noteq> Inr (JStr ''client_ready''))"
  shows "\<exists>st' entries. onmessage JSON_parse now c event_data st = Inr st' \<and>
           sent st' = sent st \<and> clients st' = clients st \<and> readyState st' = readyState st \<and>
           console st' = console st @ entries \<and> entries \<noteq> []"
proof -
  consider (malformed) "JSON_parse event_data = None"
    | (thrown) data e where "JSON_parse event_data = Some data" "get_prop data ''type'' = Inl e"
    | (unknown) data t where "JSON_parse event_data = Some data" "get_prop data ''type'' = Inr t"
        "t \<noteq> JStr ''physics_update''" "t \<noteq> JStr ''client_ready''"
    using assms by (metis sum.exhaust)
  then show ?thesis
  proof cases
    case malformed
    then have "onmessage JSON_parse now c event_data st = Inr (console_log (LogParseError SyntaxError) st)"
      by (simp add: onmessage_def onmessage_try_def)
    then show ?thesis by (simp add: console_log_def)
  next
    case thrown
    then have "onmessage JSON_parse now c event_data st =
        Inr (console_log (LogParseError e) (console_log (LogReceived data) st))"
      by (simp add: onmessage_def onmessage_try_def)
    then show ?thesis by (simp add: console_log_def)
  next
    case unknown
    then have "onmessage JSON_parse now c event_data st =
        Inr (console_log (LogUnknownType t) (console_log (LogReceived data) st))"
      by (simp add: onmessage_def onmessage_try_def)
    then show ?thesis by (simp add: console_log_def)
  qed
qed

theorem discard_malformed_or_unknown_witness:
  "(\<exists>st'. onmessage (\<lambda>frame. None) 0 2 ''not json''
            \<lparr>clients = [0, 1, 2], readyState = (\<lambda>c. if c = 1 then CLOSING else OPEN),
             sent = [], console = []\<rparr> = Inr st' \<and>
          sent st' = [] \<and> clients st' = [0, 1, 2]) \<and>
   (\<exists>st'. onmessage (\<lambda>frame. Some (JObj [(''type'', JStr ''hello'')])) 0 2 ''frame''
            \<lparr>clients = [0, 1, 2], readyState = (\<lambda>c. if c = 1 then CLOSING else OPEN),
             sent = [], console = []\<rparr> = Inr st' \<and>
          sent st' = [] \<and> clients st' = [0, 1, 2]) \<and>
   (\<exists>st'. onmessage (\<lambda>frame. Some JNull) 0 2 ''null''
            \<lparr>clients = [0, 1, 2], readyState = (\<lambda>c. if c = 1 then CLOSING else OPEN),
             sent = [], console = []\<rparr> = Inr st' \<and>
          sent st' = [] \<and> clients st' = [0, 1, 2])"
proof -
  let ?st = "\<lparr>clients = [0, 1, 2], readyState = (\<lambda>c. if c = 1 then CLOSING else OPEN),
              sent = [], console = []\<rparr>"
  let ?p1 = "\<lambda>frame::string. (None :: jsval option)"
  let ?p2 = "\<lambda>frame::string. Some (JObj [(''type'', JStr ''hello'')])"
  let ?p3 = "\<lambda>frame::string. Some JNull"
  have h1: "?p1 ''not json'' = None \<or>
           (\<exists>data. ?p1 ''not json'' = Some data \<and>
              get_prop data ''type'' \<noteq> Inr (JStr ''physics_update'') \<and>
              get_prop data ''type'' \<noteq> Inr (JStr ''client_ready''))"
    by simp
  have h2: "?p2 ''frame'' = None \<or>
           (\<exists>data. ?p2 ''frame'' = Some data \<and>
              get_prop data ''type'' \<noteq> Inr (JStr ''physics_update'') \<and>
              get_prop data ''type'' \<noteq> Inr (JStr ''client_ready''))"
    by simp
  have h3: "?p3 ''null'' = None \<or>
           (\<exists>data. ?p3 ''null'' = Some data \<and>
              get_prop data ''type'' \<noteq> Inr (JStr ''physics_update'') \<and>
              get_prop data ''type'' \<noteq> Inr (JStr ''client_ready''))"
    by simp
  have "\<exists>st'. onmessage ?p1 0 2 ''not json'' ?st = Inr st' \<and> sent st' = sent ?st \<and> clients st' = clients ?st"
    using discard_malformed_or_unknown
      [where JSON_parse = ?p1 and event_data = "''not json''" and st = ?st and now = 0 and c = 2] h1
    by blast
  moreover have "\<exists>st'. onmessage ?p2 0 2 ''frame'' ?st = Inr st' \<and> sent st' = sent ?st \<and> clients st' = clients ?st"
    using discard_malformed_or_unknown
      [where JSON_parse = ?p2 and event_data = "''frame''" and st = ?st and now = 0 and c = 2] h2
    by blast
  moreover have "\<exists>st'. onmessage ?p3 0 2 ''null'' ?st = Inr st' \<and> sent st' = sent ?st \<and> clients st' = clients ?st"
    using discard_malformed_or_unknown
      [where JSON_parse = ?p3 and event_data = "''null''" and st = ?st and now = 0 and c = 2] h3
    by blast
  ultimately show ?thesis by simp
qed

section \<open>Properties of the clients\<close>

lemma attemptReconnect_capped:
  "maxReconnectAttempts \<le> reconnectAttempts st \<Longrightarrow> attemptReconnect st = st"
  by (simp add: attemptReconnect_def)

lemma handle_event_capped:
  assumes "maxReconnectAttempts \<le> reconnectAttempts st" and "\<not> isConnected st" and "ev \<noteq> EvOpen"
  shows "timers (handle_event ev st) = timers st \<and>
         reconnectAttempts (handle_event ev st) = reconnectAttempts st \<and>
         \<not> isConnected (handle_event ev st) \<and>
         outbox (handle_event ev st) = outbox st"
  using assms
  by (cases ev) (simp_all add: socket_onclose_def socket_onerror_def connect_def attemptReconnect_def)

lemma reconnects_bounded:
  "EvOpen \<notin> set evs \<Longrightarrow>
   length (timers (run_events evs st)) + (maxReconnectAttempts - reconnectAttempts (run_events evs st))
     \<le> length (timers st) + (maxReconnectAttempts - reconnectAttempts st)"
proof (induction evs arbitrary: st)
  case Nil
  then show ?case by (simp add: run_events_def)
next
  case (Cons ev evs)
  from Cons.prems have ev: "ev \<noteq> EvOpen" and evs: "EvOpen \<notin> set evs" by auto
  have step: "length (timers (handle_event ev st)) + (maxReconnectAttempts - reconnectAttempts (handle_event ev st))
     \<le> length (timers st) + (maxReconnectAttempts - reconnectAttempts st)"
    using ev by (cases ev) (auto simp add: socket_onclose_def socket_onerror_def connect_def attemptReconnect_def Let_def)
  show ?case using Cons.IH [OF evs, of "handle_event ev st"] step by (simp add: run_events_def)
qed

text \<open>
  C7, as amended. \<open>reconnectAttempts\<close> counts the reconnects that were scheduled; it
  reaches \<open>maxReconnectAttempts\<close> (5) with the fifth. From then on, with the client not
  connected, a failed attempt finds \<open>attemptReconnect\<close> doing nothing, and for as long
  as no connection opens, whatever close, error and timer events follow, no handler
  calls \<open>setTimeout\<close> again, the counter stays where it is and the client stays not
  connected. \<open>reconnects_bounded\<close> adds that at most five reconnects are scheduled
  between two opens.
\<close>

theorem reconnect_cap:
  assumes "maxReconnectAttempts \<le> reconnectAttempts st" and "\<not> isConnected st"
    and "EvOpen \<notin> set evs"
  shows "attemptReconnect st = st \<and>
         timers (run_events evs st) = timers st \<and>
         reconnectAttempts (run_events evs st) = reconnectAttempts st \<and>
         \<not> isConnected (run_events evs st)"
proof -
  have "timers (run_events evs st) = timers st \<and>
        reconnectAttempts (run_events evs st) = reconnectAttempts st \<and>
        \<not> isConnected (run_events evs st)"
    using assms
  proof (induction evs arbitrary: st)
    case Nil
    then show ?case by (simp add: run_events_def)
  next
    case (Cons ev evs)
    from Cons.prems have ev: "ev \<noteq> EvOpen" and evs: "EvOpen \<notin> set evs" by auto
    note step = handle_event_capped [OF Cons.prems(1,2) ev]
    have "timers (run_events evs (handle_event ev st)) = timers (handle_event ev st) \<and>
          reconnectAttempts (run_events evs (handle_event ev st)) =
            reconnectAttempts (handle_event ev st) \<and>
          \<not> isConnected (run_events evs (handle_event ev st))"
      using Cons.IH [of "handle_event ev st"] step Cons.prems(1) evs by simp
    then show ?case using step by (simp add: run_events_def)
  qed
  then show ?thesis using attemptReconnect_capped [OF assms(1)] by simp
qed

theorem reconnect_cap_witness:
  "reconnectAttempts
     (run_events [EvClose, EvTimer False, EvClose, EvTimer False, EvClose, EvTimer False,
                  EvClose, EvTimer False, EvClose] (connect False (new_client True))) = 5 \<and>
   timers
     (run_events [EvClose, EvTimer False, EvClose, EvTimer False, EvClose, EvTimer False,
                  EvClose, EvTimer False, EvClose] (connect False (new_client True)))
     = [1000, 2000, 3000, 4000, 5000] \<and>
   timers
     (run_events [EvTimer False, EvError, EvClose, EvTimer True]
        (run_events [EvClose, EvTimer False, EvClose, EvTimer False, EvClose, EvTimer False,
                     EvClose, EvTimer False, EvClose] (connect False (new_client True))))
     = [1000, 2000, 3000, 4000, 5000] \<and>
   \<not> isConnected
     (run_events [EvTimer False, EvError, EvClose, EvTimer True]
        (run_events [EvClose, EvTimer False, EvClose, EvTimer False, EvClose, EvTimer False,
                     EvClose, EvTimer False, EvClose] (connect False (new_client True))))"
proof -
  let ?st = "run_events [EvClose, EvTimer False, EvClose, EvTimer False, EvClose, EvTimer False,
                         EvClose, EvTimer False, EvClose] (connect False (new_client True))"
  let ?evs = "[EvTimer False, EvError, EvClose, EvTimer True]"
  have st: "reconnectAttempts ?st = 5" "timers ?st = [1000, 2000, 3000, 4000, 5000]"
    "\<not> isConnected ?st"
    by (simp_all add: run_events_def socket_onclose_def connect_def attemptReconnect_def
        maxReconnectAttempts_def new_client_def)
  have h1: "maxReconnectAttempts \<le> reconnectAttempts ?st"
    using st(1) by (simp add: maxReconnectAttempts_def)
  have h3: "EvOpen \<notin> set ?evs" by simp
  have "timers (run_events ?evs ?st) = timers ?st" "\<not> isConnected (run_events ?evs ?st)"
    using reconnect_cap [OF h1 st(3) h3] by blast+
  then show ?thesis using st by simp
qed

text \<open>
  The claim as stated, closed permanently once the counter has reached 5, fails: the
  fifth failure of a new client brings the counter to 5 and schedules the fifth
  reconnect, which is still attempted. When that connection opens, the client is
  connected and the counter is 0 again, and the next close schedules a reconnect anew.
\<close>

theorem reconnect_cap_counterexample:
  "reconnectAttempts
     (run_events [EvClose, EvTimer False, EvClose, EvTimer False, EvClose, EvTimer False,
                  EvClose, EvTimer False, EvClose] (connect False (new_client True))) = 5 \<and>
   \<not> isConnected
     (run_events [EvClose, EvTimer False, EvClose, EvTimer False, EvClose, EvTimer False,
                  EvClose, EvTimer False, EvClose] (connect False (new_client True))) \<and>
   isConnected
     (run_events [EvTimer False, EvOpen]
        (run_events [EvClose, EvTimer False, EvClose, EvTimer False, EvClose, EvTimer False,
                     EvClose, EvTimer False, EvClose] (connect False (new_client True)))) \<and>
   reconnectAttempts
     (run_events [EvTimer False, EvOpen]
        (run_events [EvClose, EvTimer False, EvClose, EvTimer False, EvClose, EvTimer False,
                     EvClose, EvTimer False, EvClose] (connect False (new_client True)))) = 0 \<and>
   timers
     (run_events [EvTimer False, EvOpen, EvClose]
        (run_events [EvClose, EvTimer False, EvClose, EvTimer False, EvClose, EvTimer False,
                     EvClose, EvTimer False, EvClose] (connect False (new_client True))))
     = [1000, 2000, 3000, 4000, 5000, 1000]"
  by (simp add: run_events_def socket_onclose_def socket_onopen_def sendMessage_def connect_def
      attemptReconnect_def maxReconnectAttempts_def new_client_def)

text \<open>
  C8. With \<open>gravity.y = 9.81\<close>, one call of \<open>toggleGravity\<close> sets it to 0 and a second
  call sets it to 9.81 again, in the typed client and in the plain-script client: the
  toggle assigns one of two constants.
\<close>

theorem toggle_gravity_twice:
  "(vec_y (gravity st) = 9.81 \<longrightarrow>
      vec_y (gravity (toggleGravity st)) = 0 \<and>
      vec_y (gravity (toggleGravity (toggleGravity st))) = 9.81) \<and>
   (vec_y (p_gravity pst) = 9.81 \<longrightarrow>
      vec_y (p_gravity (plain_toggleGravity pst)) = 0 \<and>
      vec_y (p_gravity (plain_toggleGravity (plain_toggleGravity pst))) = 9.81)"
  by (simp add: toggleGravity_def plain_toggleGravity_def plain_sendMessage_def Let_def)

theorem toggle_gravity_twice_witness:
  "vec_y (gravity (new_client True)) = 9.81 \<and>
   vec_y (gravity (toggleGravity (new_client True))) = 0 \<and>
   vec_y (gravity (toggleGravity (toggleGravity (new_client True)))) = 9.81 \<and>
   vec_y (p_gravity new_plain_client) = 9.81 \<and>
   vec_y (p_gravity (plain_toggleGravity new_plain_client)) = 0 \<and>
   vec_y (p_gravity (plain_toggleGravity (plain_toggleGravity new_plain_client))) = 9.81"
proof -
  have h: "vec_y (gravity (new_client True)) = 9.81" "vec_y (p_gravity new_plain_client) = 9.81"
    by (simp_all add: new_client_def new_plain_client_def)
  show ?thesis
    using toggle_gravity_twice [of "new_client True" new_plain_client] h by blast
qed

text \<open>
  C4, as amended. A \<open>physics_update\<close> message whose \<open>data.action\<close> is \<open>update_gravity\<close> and
  whose \<open>data.gravity\<close> is there: the typed client's \<open>handleMessage\<close> returns the state
  with \<open>gravity\<close> replaced by the payload's, and so does its \<open>onmessage\<close> on a frame that
  parses to that message.
\<close>

theorem update_gravity_replaces:
  assumes "m_type message = ''physics_update''" and "m_data message = Some data"
    and "d_action data = Some ''update_gravity''" and "d_gravity data = Some g"
  shows "handleMessage message st = Inr (st\<lparr>gravity := g\<rparr>) \<and>
         (JSON_parse event_data = Some message \<longrightarrow>
            client_onmessage JSON_parse event_data st = st\<lparr>gravity := g\<rparr>)"
  using assms by (simp add: handleMessage_def handlePhysicsUpdate_def client_onmessage_def)

theorem update_gravity_replaces_witness:
  "handleMessage
     \<lparr>m_type = ''physics_update'',
      m_data = Some \<lparr>d_action = Some ''update_gravity'', d_object = None, d_id = None,
                     d_gravity = Some \<lparr>vec_x = 0, vec_y = 5\<rparr>\<rparr>,
      m_timestamp = Some 1700000000000\<rparr> (new_client True)
     = Inr ((new_client True)\<lparr>gravity := \<lparr>vec_x = 0, vec_y = 5\<rparr>\<rparr>)"
proof -
  let ?data = "\<lparr>d_action = Some ''update_gravity'', d_object = None, d_id = None,
                d_gravity = Some \<lparr>vec_x = 0, vec_y = 5\<rparr>\<rparr>"
  let ?m = "\<lparr>m_type = ''physics_update'', m_data = Some ?data, m_timestamp = Some 1700000000000\<rparr>"
  have h: "m_type ?m = ''physics_update''" "m_data ?m = Some ?data"
    "d_action ?data = Some ''update_gravity''" "d_gravity ?data = Some \<lparr>vec_x = 0, vec_y = 5\<rparr>"
    by simp_all
  show ?thesis
    using update_gravity_replaces [OF h, of "new_client True"] by blast
qed

text \<open>
  The claim as stated fails for \<open>gravity_changed\<close>, the action that the plain-script
  client's \<open>toggleGravity\<close> sends: \<open>handlePhysicsUpdate\<close> has no branch for it, and the
  client's gravity stays \<open>(0, 9.81)\<close> where the payload says \<open>(0, 0)\<close>.
\<close>

theorem gravity_changed_counterexample:
  "handleMessage \<lparr>m_type = ''physics_update'',
       m_data = Some \<lparr>d_action = Some ''gravity_changed'', d_object = None, d_id = None,
                      d_gravity = Some \<lparr>vec_x = 0, vec_y = 0\<rparr>\<rparr>,
       m_timestamp = Some 1700000000000\<rparr> (new_client True) = Inr (new_client True) \<and>
   gravity (new_client True) = \<lparr>vec_x = 0, vec_y = 9.81\<rparr> \<and>
   gravity (new_client True) \<noteq> \<lparr>vec_x = 0, vec_y = 0\<rparr>"
  by (simp add: handleMessage_def handlePhysicsUpdate_def new_client_def)

end
